theory Spec2Isabelle
  imports Complex_Main "HOL-Library.Sublist" "HOL-Library.AList" "HOL-Library.Multiset"
begin

section \<open>Python strings\<close>

text \<open>
  A Python \<open>str\<close> is a \<open>string\<close>, the list of its characters. The methods that
  only compare characters are written out: \<open>str_in pat s\<close> is \<open>pat in s\<close>,
  \<open>prefix pat s\<close> is \<open>s.startswith(pat)\<close>. \<open>str.lower()\<close> and \<open>str.strip()\<close>
  follow the interpreter's Unicode tables and are taken as parameters below.
\<close>

fun str_in :: "string \<Rightarrow> string \<Rightarrow> bool" where
  "str_in pat [] = (pat = [])"
| "str_in pat (c # cs) = (prefix pat (c # cs) \<or> str_in pat cs)"

text \<open>\<open>s.split(sep)\<close> for a one-character separator: every occurrence cuts.\<close>

fun str_split :: "char \<Rightarrow> string \<Rightarrow> string list" where
  "str_split sep [] = [[]]"
| "str_split sep (c # cs) =
     (if c = sep then [] # str_split sep cs
      else (case str_split sep cs of [] \<Rightarrow> [[c]] | p # ps \<Rightarrow> (c # p) # ps))"

text \<open>\<open>s.split(sep, 1)\<close> when \<open>sep\<close> occurs in \<open>s\<close>: the text before and after the first one.\<close>

definition str_split1 :: "char \<Rightarrow> string \<Rightarrow> string \<times> string" where
  "str_split1 sep s = (takeWhile (\<lambda>c. c \<noteq> sep) s, tl (dropWhile (\<lambda>c. c \<noteq> sep) s))"

text \<open>\<open>s.replace(c, "")\<close> for a one-character \<open>c\<close>.\<close>

definition str_remove :: "char \<Rightarrow> string \<Rightarrow> string" where
  "str_remove c s = filter (\<lambda>d. d \<noteq> c) s"

text \<open>\<open>s.rstrip("/")\<close>.\<close>

definition str_rstrip :: "char \<Rightarrow> string \<Rightarrow> string" where
  "str_rstrip c s = rev (dropWhile (\<lambda>d. d = c) (rev s))"

text \<open>\<open>", ".join(xs)\<close>.\<close>

fun str_join :: "string \<Rightarrow> string list \<Rightarrow> string" where
  "str_join sep [] = []"
| "str_join sep [x] = x"
| "str_join sep (x # y # ys) = x @ sep @ str_join sep (y # ys)"

section \<open>Exceptions\<close>

text \<open>
  Every exception the clients can raise is a value. \<open>ValueError m\<close> is a
  \<open>ValueError\<close> raised by the package itself with message \<open>m\<close>;
  \<open>ValueErrorCause m e\<close> is the \<open>ValueError\<close> of the price wrappers, whose message is
  \<open>m\<close> followed by \<open>str(e)\<close> of the exception \<open>e\<close> they caught.
  \<open>ConversionError\<close> is the \<open>ValueError\<close> that \<open>float()\<close>, \<open>int()\<close> and
  \<open>json.loads\<close> raise on a text or a NaN they cannot convert; \<open>OverflowError\<close>,
  \<open>TypeError\<close>, \<open>AttributeError\<close> and \<open>IndexError\<close> are raised by the
  interpreter. The message text of the interpreter's own exceptions is not modelled.
  \<open>HTTPStatusError\<close> is what \<open>raise_for_status\<close> raises, \<open>ConnectError\<close> what the
  transport raises when no response arrives.
\<close>

datatype exn =
    HTTPStatusError nat
  | ConnectError
  | ValueError string
  | ValueErrorCause string exn
  | ConversionError
  | OverflowError
  | TypeError
  | AttributeError
  | IndexError

text \<open>
  The vocabulary of the specification: a \<open>VendorError\<close> carrying the raw text is the
  \<open>ValueError\<close> that \<open>_request\<close> raises.
\<close>

definition VendorError :: "string \<Rightarrow> exn" where
  "VendorError text = ValueError (''API Error: '' @ text)"

definition py_index :: "'a list \<Rightarrow> nat \<Rightarrow> exn + 'a" where
  "py_index xs i = (if i < length xs then Inr (xs ! i) else Inl IndexError)"

section \<open>Transport\<close>

text \<open>
  The HTTP layer is outside the package. The world holds the responses the vendor is
  going to give, in order, and the log of the requests sent so far. A GET takes the
  next response and logs the URL with its query parameters; when the vendor gives no
  response the transport raises.
\<close>

datatype param = PStr string | PInt int | PBool bool

type_synonym query = "(string \<times> param) list"

datatype http_response = Response nat string

record world =
  script :: "http_response list"
  sent :: "(string \<times> query) list"

definition http_get :: "string \<Rightarrow> query \<Rightarrow> world \<Rightarrow> http_response option \<times> world" where
  "http_get u q w =
     (case script w of
        [] \<Rightarrow> (None, w\<lparr>sent := sent w @ [(u, q)]\<rparr>)
      | r # rs \<Rightarrow> (Some r, w\<lparr>script := rs, sent := sent w @ [(u, q)]\<rparr>))"

text \<open>\<open>response.raise_for_status()\<close> passes the 2xx codes.\<close>

definition is_success :: "nat \<Rightarrow> bool" where
  "is_success code = (200 \<le> code \<and> code < 300)"

datatype client_class = SMSHubClient | HeroSMSClient | SMSActivateClient | SMSBowerClient

record client =
  cls :: client_class
  api_key :: string
  base_url :: string
  proxy :: "string option"
  timeout :: int

text \<open>\<open>{"api_key": ..., "action": ..., **params}\<close>: a later key replaces the value in place.\<close>

definition dict_merge :: "('k \<times> 'v) list \<Rightarrow> ('k \<times> 'v) list \<Rightarrow> ('k \<times> 'v) list" where
  "dict_merge base extra = fold (\<lambda>(k, v). AList.update k v) extra base"

definition errors :: "string list" where
  "errors = [''BAD_KEY'', ''ERROR_SQL'', ''BAD_ACTION'', ''WRONG_ACTIVATION_ID'', ''NO_KEY'', ''BANNED'']"

text \<open>
  \<open>request\<close> is the method \<open>_request\<close>: one GET, the status check, then the scan
  of the body for the vendor's error tokens.
\<close>

definition request :: "client \<Rightarrow> string \<Rightarrow> query \<Rightarrow> world \<Rightarrow> (exn + string) \<times> world" where
  "request self action params w =
     (let query_params = dict_merge [(''api_key'', PStr (api_key self)), (''action'', PStr action)] params
      in case http_get (base_url self) query_params w of
           (None, w') \<Rightarrow> (Inl ConnectError, w')
         | (Some (Response code text), w') \<Rightarrow>
             if \<not> is_success code then (Inl (HTTPStatusError code), w')
             else if list_ex (\<lambda>err. str_in err text) errors
               then (Inl (ValueError (''API Error: '' @ text)), w')
             else (Inr text, w'))"

section \<open>Python floats\<close>

text \<open>
  A Python float is a finite number, one of the two infinities, or NaN. The
  comparisons are Python's: every comparison with NaN is false, also \<open>nan == nan\<close>.
\<close>

datatype pyfloat = Finite real | PosInf | NegInf | NaN

fun float_lt :: "pyfloat \<Rightarrow> pyfloat \<Rightarrow> bool" where
  "float_lt NaN _ = False"
| "float_lt _ NaN = False"
| "float_lt (Finite a) (Finite b) = (a < b)"
| "float_lt _ NegInf = False"
| "float_lt NegInf _ = True"
| "float_lt PosInf _ = False"
| "float_lt _ PosInf = True"

definition float_eq :: "pyfloat \<Rightarrow> pyfloat \<Rightarrow> bool" where
  "float_eq a b = (a \<noteq> NaN \<and> a = b)"

definition float_le :: "pyfloat \<Rightarrow> pyfloat \<Rightarrow> bool" where
  "float_le a b = (float_lt a b \<or> float_eq a b)"

section \<open>Domain model\<close>

record Balance =
  amount :: pyfloat
  currency :: string

record NumberActivation =
  activation_id :: string
  phone_number :: string
  na_service :: string
  na_cost :: "pyfloat option"

record ActivationStatus =
  status :: string
  code :: "string option"
  full_text :: "string option"

datatype price = Scalar pyfloat | Prices "pyfloat list"

record ServicePrice =
  service :: string
  cost :: price
  min_price :: pyfloat
  max_price :: pyfloat
  count :: int

record CountryPrices =
  country_id :: int
  services :: "(string \<times> ServicePrice) list"

section \<open>Interpreter functions taken as parameters\<close>

text \<open>
  What belongs to the interpreter and not to the package is a parameter, and the
  clients are modelled over any behaviour of it:
  \<^item> \<open>float_str\<close> and \<open>int_str\<close> are \<open>float()\<close> and \<open>int()\<close> on a string, with
    \<open>None\<close> where they raise \<open>ValueError\<close>;
  \<^item> \<open>float_int\<close> is \<open>float()\<close> on an integer, with \<open>None\<close> where it raises
    \<open>OverflowError\<close>;
  \<^item> \<open>json_loads\<close> is \<open>json.loads\<close>, with \<open>None\<close> where it raises; it accepts
    \<open>NaN\<close> and \<open>Infinity\<close>;
  \<^item> \<open>list_sort\<close> is \<open>list.sort()\<close> and \<open>sorted()\<close> on a list of floats;
  \<^item> \<open>str_lower\<close> and \<open>str_strip\<close> are \<open>str.lower()\<close> and \<open>str.strip()\<close>.
\<close>

datatype json =
    JNull
  | JBool bool
  | JInt int
  | JFloat pyfloat
  | JString string
  | JList "json list"
  | JObject "(string \<times> json) list"

record builtins =
  float_str :: "string \<Rightarrow> pyfloat option"
  float_int :: "int \<Rightarrow> pyfloat option"
  int_str :: "string \<Rightarrow> int option"
  json_loads :: "string \<Rightarrow> json option"
  list_sort :: "pyfloat list \<Rightarrow> pyfloat list"
  str_lower :: "string \<Rightarrow> string"
  str_strip :: "string \<Rightarrow> string"

section \<open>The generic client\<close>

definition get_balance :: "builtins \<Rightarrow> client \<Rightarrow> world \<Rightarrow> (exn + Balance) \<times> world" where
  "get_balance py self w =
     (case request self ''getBalance'' [] w of
        (Inl e, w') \<Rightarrow> (Inl e, w')
      | (Inr response, w') \<Rightarrow>
          if CHR '':'' \<in> set response then
            (case py_index (str_split CHR '':'' response) 1 of
               Inl e \<Rightarrow> (Inl e, w')
             | Inr field \<Rightarrow>
                 (case float_str py field of
                    None \<Rightarrow> (Inl ConversionError, w')
                  | Some a \<Rightarrow> (Inr \<lparr>amount = a, currency = ''RUB''\<rparr>, w')))
          else (Inl (ValueError (''Unexpected balance response: '' @ response)), w'))"

text \<open>The query parameters \<open>get_number\<close> builds before it sends the request.\<close>

definition get_number_params :: "string \<Rightarrow> int option \<Rightarrow> string option \<Rightarrow> query" where
  "get_number_params srv country operator =
     (let params = [(''service'', PStr srv)];
          params = (case country of None \<Rightarrow> params
                    | Some c \<Rightarrow> AList.update ''country'' (PInt c) params)
      in case operator of
           None \<Rightarrow> params
         | Some op \<Rightarrow>
             if op = [] then params
             else AList.update ''operator''
                    (PStr (if country \<noteq> None \<and> country \<noteq> Some 73 then ''any'' else op)) params)"

text \<open>What \<open>get_number\<close> and \<open>reactivation_number\<close> read from \<open>ACCESS_NUMBER:ID:NUMBER\<close>.\<close>

definition access_number_parts :: "string \<Rightarrow> exn + string \<times> string" where
  "access_number_parts response =
     (let parts = str_split CHR '':'' response
      in case py_index parts 1 of
           Inl e \<Rightarrow> Inl e
         | Inr p1 \<Rightarrow> (case py_index parts 2 of Inl e \<Rightarrow> Inl e | Inr p2 \<Rightarrow> Inr (p1, p2)))"

definition get_number ::
  "client \<Rightarrow> string \<Rightarrow> int option \<Rightarrow> string option \<Rightarrow> world \<Rightarrow> (exn + NumberActivation) \<times> world" where
  "get_number self srv country operator w =
     (case request self ''getNumber'' (get_number_params srv country operator) w of
        (Inl e, w') \<Rightarrow> (Inl e, w')
      | (Inr response, w') \<Rightarrow>
          if prefix ''ACCESS_NUMBER'' response then
            (case access_number_parts response of
               Inl e \<Rightarrow> (Inl e, w')
             | Inr (p1, p2) \<Rightarrow>
                 (Inr \<lparr>activation_id = p1, phone_number = p2, na_service = srv, na_cost = None\<rparr>, w'))
          else (Inl (ValueError (''Error getting number: '' @ response)), w'))"

definition set_status :: "client \<Rightarrow> string \<Rightarrow> int \<Rightarrow> world \<Rightarrow> (exn + string) \<times> world" where
  "set_status self aid st w =
     request self ''setStatus'' [(''id'', PStr aid), (''status'', PInt st)] w"

definition active_status :: "client \<Rightarrow> string \<Rightarrow> world \<Rightarrow> (exn + string) \<times> world" where
  "active_status self aid w = set_status self aid 1 w"

definition reactivation_number ::
  "client \<Rightarrow> string \<Rightarrow> world \<Rightarrow> (exn + NumberActivation) \<times> world" where
  "reactivation_number self aid w =
     (case request self ''getExtraActivation'' [(''activationId'', PStr aid)] w of
        (Inl e, w') \<Rightarrow> (Inl e, w')
      | (Inr response, w') \<Rightarrow>
          if prefix ''ACCESS_NUMBER'' response then
            (case access_number_parts response of
               Inl e \<Rightarrow> (Inl e, w')
             | Inr (new_id, new_number) \<Rightarrow>
                 (case active_status self new_id w' of
                    (Inl e, w'') \<Rightarrow> (Inl e, w'')
                  | (Inr _, w'') \<Rightarrow>
                      (Inr \<lparr>activation_id = new_id, phone_number = new_number,
                            na_service = ''reactivation'', na_cost = None\<rparr>, w'')))
          else (Inl (ValueError (''Error reactivating number: '' @ response)), w'))"

definition get_status :: "client \<Rightarrow> string \<Rightarrow> world \<Rightarrow> (exn + ActivationStatus) \<times> world" where
  "get_status self aid w =
     (case request self ''getStatus'' [(''id'', PStr aid)] w of
        (Inl e, w') \<Rightarrow> (Inl e, w')
      | (Inr response, w') \<Rightarrow>
          if CHR '':'' \<in> set response then
            (case str_split1 CHR '':'' response of
               (st, cd) \<Rightarrow> (Inr \<lparr>status = st, code = Some cd, full_text = None\<rparr>, w'))
          else (Inr \<lparr>status = response, code = None, full_text = None\<rparr>, w'))"

definition get_sms :: "client \<Rightarrow> string \<Rightarrow> world \<Rightarrow> (exn + string option) \<times> world" where
  "get_sms self aid w =
     (case get_status self aid w of
        (Inl e, w') \<Rightarrow> (Inl e, w')
      | (Inr st, w') \<Rightarrow>
          if status st = ''STATUS_OK'' then (Inr (code st), w')
          else if status st \<in> set [''STATUS_CANCEL'', ''NO_ACTIVATION'', ''ACCESS_CANCEL'']
            then (Inr None, w')
          else (Inr None, w'))"

text \<open>
  A call with \<open>npos\<close> positional arguments (the receiver counts as one) and keyword
  arguments binds each keyword to a parameter of the callee's signature that no
  positional argument has taken; a keyword the signature does not have, one that a
  positional argument has taken, and a keyword given twice are a \<open>TypeError\<close>.
  \<open>get_sms\<close> is declared as \<open>def get_sms(self, activation_id)\<close>.
\<close>

definition bind_keywords :: "string list \<Rightarrow> nat \<Rightarrow> string list \<Rightarrow> exn + unit" where
  "bind_keywords signature npos keywords =
     (if list_all (\<lambda>k. k \<in> set (drop npos signature)) keywords \<and> distinct keywords
      then Inr () else Inl TypeError)"

definition get_sms_signature :: "string list" where
  "get_sms_signature = [''self'', ''activation_id'']"

definition get_new_sms ::
  "client \<Rightarrow> string \<Rightarrow> int \<Rightarrow> int \<Rightarrow> world \<Rightarrow> (exn + string option) \<times> world" where
  "get_new_sms self aid tmo interval w =
     (case set_status self aid 3 w of
        (Inl e, w') \<Rightarrow> (Inl e, w')
      | (Inr _, w') \<Rightarrow>
          (case bind_keywords get_sms_signature 2 [''timeout'', ''interval''] of
             Inl e \<Rightarrow> (Inl e, w')
           | Inr _ \<Rightarrow> get_sms self aid w'))"

text \<open>An optional string in a condition: \<open>None\<close> and the empty string are false.\<close>

fun truthy :: "string option \<Rightarrow> bool" where
  "truthy None = False"
| "truthy (Some s) = (s \<noteq> [])"

section \<open>Python values read from JSON\<close>

text \<open>The truth value of a JSON value in a condition or under \<open>or\<close>.\<close>

fun json_truthy :: "json \<Rightarrow> bool" where
  "json_truthy JNull = False"
| "json_truthy (JBool b) = b"
| "json_truthy (JInt i) = (i \<noteq> 0)"
| "json_truthy (JFloat x) = (x \<noteq> Finite 0)"
| "json_truthy (JString s) = (s \<noteq> [])"
| "json_truthy (JList xs) = (xs \<noteq> [])"
| "json_truthy (JObject kvs) = (kvs \<noteq> [])"

definition py_or :: "json \<Rightarrow> json \<Rightarrow> json" where
  "py_or a b = (if json_truthy a then a else b)"

text \<open>\<open>d.get(k, default)\<close>.\<close>

definition dict_get :: "(string \<times> json) list \<Rightarrow> string \<Rightarrow> json \<Rightarrow> json" where
  "dict_get d k dflt = (case map_of d k of None \<Rightarrow> dflt | Some v \<Rightarrow> v)"

text \<open>
  \<open>float(v)\<close> and \<open>int(v)\<close>. \<open>float\<close> of a float is that float and \<open>float\<close> of
  a bool is 0 or 1. \<open>int\<close> of a finite float truncates towards zero, \<open>int\<close> of an
  infinity is an \<open>OverflowError\<close> and \<open>int\<close> of NaN a \<open>ValueError\<close>.
\<close>

fun py_float :: "builtins \<Rightarrow> json \<Rightarrow> exn + pyfloat" where
  "py_float py (JInt i) =
     (case float_int py i of None \<Rightarrow> Inl OverflowError | Some x \<Rightarrow> Inr x)"
| "py_float py (JFloat x) = Inr x"
| "py_float py (JBool b) = Inr (Finite (if b then 1 else 0))"
| "py_float py (JString s) =
     (case float_str py s of None \<Rightarrow> Inl ConversionError | Some x \<Rightarrow> Inr x)"
| "py_float py _ = Inl TypeError"

fun py_int :: "builtins \<Rightarrow> json \<Rightarrow> exn + int" where
  "py_int py (JInt i) = Inr i"
| "py_int py (JFloat (Finite r)) = Inr (if 0 \<le> r then \<lfloor>r\<rfloor> else \<lceil>r\<rceil>)"
| "py_int py (JFloat NaN) = Inl ConversionError"
| "py_int py (JFloat _) = Inl OverflowError"
| "py_int py (JBool b) = Inr (if b then 1 else 0)"
| "py_int py (JString s) =
     (case int_str py s of None \<Rightarrow> Inl ConversionError | Some i \<Rightarrow> Inr i)"
| "py_int py _ = Inl TypeError"

section \<open>Standard price parsing\<close>

text \<open>\<open>[float(p) for p in free_price_map.keys()]\<close>.\<close>

fun float_keys :: "builtins \<Rightarrow> (string \<times> json) list \<Rightarrow> exn + pyfloat list" where
  "float_keys py [] = Inr []"
| "float_keys py ((p, v) # kvs) =
     (case float_str py p of
        None \<Rightarrow> Inl ConversionError
      | Some r \<Rightarrow> (case float_keys py kvs of Inl e \<Rightarrow> Inl e | Inr rs \<Rightarrow> Inr (r # rs)))"

text \<open>
  The block that \<open>get_prices\<close> and \<open>process_entry\<close> share: \<open>cost\<close>, \<open>min_p\<close> and
  \<open>max_p\<close> start at the base cost and are replaced when \<open>freePriceMap\<close> is a non-empty
  dict.
\<close>

definition price_fields ::
  "builtins \<Rightarrow> pyfloat \<Rightarrow> json \<Rightarrow> exn + price \<times> pyfloat \<times> pyfloat" where
  "price_fields py base_cost free_price_map =
     (case free_price_map of
        JObject kvs \<Rightarrow>
          if kvs \<noteq> [] then
            (case float_keys py kvs of
               Inl e \<Rightarrow> Inl e
             | Inr ps \<Rightarrow>
                 (let prices = list_sort py ps
                  in if prices \<noteq> [] then Inr (Prices prices, hd prices, last prices)
                     else Inr (Scalar base_cost, base_cost, base_cost)))
          else Inr (Scalar base_cost, base_cost, base_cost)
      | _ \<Rightarrow> Inr (Scalar base_cost, base_cost, base_cost))"

text \<open>The body of the loop over the services of one country, for a dict \<open>srv_data\<close>.\<close>

definition standard_service ::
  "builtins \<Rightarrow> string \<Rightarrow> (string \<times> json) list \<Rightarrow> exn + ServicePrice" where
  "standard_service py srv_code srv_data =
     (case py_float py (py_or (dict_get srv_data ''cost'' (JInt 0))
                              (dict_get srv_data ''price'' (JInt 0))) of
        Inl e \<Rightarrow> Inl e
      | Inr base_cost \<Rightarrow>
          (case price_fields py base_cost (dict_get srv_data ''freePriceMap'' JNull) of
             Inl e \<Rightarrow> Inl e
           | Inr (c, min_p, max_p) \<Rightarrow>
               (case py_int py (py_or (dict_get srv_data ''count'' (JInt 0)) (JInt 0)) of
                  Inl e \<Rightarrow> Inl e
                | Inr n \<Rightarrow>
                    Inr \<lparr>service = srv_code, cost = c, min_price = min_p,
                         max_price = max_p, count = n\<rparr>)))"

fun standard_services ::
  "builtins \<Rightarrow> (string \<times> json) list \<Rightarrow> (string \<times> ServicePrice) list
     \<Rightarrow> exn + (string \<times> ServicePrice) list" where
  "standard_services py [] service_map = Inr service_map"
| "standard_services py ((srv_code, JObject srv_data) # rest) service_map =
     (case standard_service py srv_code srv_data of
        Inl e \<Rightarrow> Inl e
      | Inr sp \<Rightarrow> standard_services py rest (AList.update srv_code sp service_map))"
| "standard_services py (_ # rest) service_map = standard_services py rest service_map"

fun standard_countries ::
  "builtins \<Rightarrow> (string \<times> json) list \<Rightarrow> CountryPrices list \<Rightarrow> exn + CountryPrices list" where
  "standard_countries py [] result = Inr result"
| "standard_countries py ((cid, JObject srvs) # rest) result =
     (case standard_services py srvs [] of
        Inl e \<Rightarrow> Inl e
      | Inr service_map \<Rightarrow>
          if service_map \<noteq> [] then
            (case int_str py cid of
               None \<Rightarrow> Inl ConversionError
             | Some c \<Rightarrow>
                 standard_countries py rest
                   (result @ [\<lparr>country_id = c, services = service_map\<rparr>]))
          else standard_countries py rest result)"
| "standard_countries py (_ # rest) result = standard_countries py rest result"

text \<open>
  The body of the \<open>try\<close> of \<open>get_prices\<close> after \<open>json.loads\<close>; the
  \<open>print(data)\<close> there writes to the standard output and is left out.
\<close>

definition standard_prices :: "builtins \<Rightarrow> json \<Rightarrow> exn + CountryPrices list" where
  "standard_prices py data =
     (let data = (case data of JList (JObject d # _) \<Rightarrow> JObject d | _ \<Rightarrow> data)
      in case data of JObject d \<Rightarrow> standard_countries py d [] | _ \<Rightarrow> Inr [])"

definition get_prices_params :: "string option \<Rightarrow> int option \<Rightarrow> bool option \<Rightarrow> query" where
  "get_prices_params srv country free_price =
     (let params = [];
          params = (if truthy srv then AList.update ''service'' (PStr (the srv)) params else params);
          params = (case country of None \<Rightarrow> params
                    | Some c \<Rightarrow> AList.update ''country'' (PInt c) params)
      in if free_price = Some True then AList.update ''freePrice'' (PBool True) params else params)"

definition get_prices ::
  "builtins \<Rightarrow> client \<Rightarrow> string option \<Rightarrow> int option \<Rightarrow> bool option \<Rightarrow> world
     \<Rightarrow> (exn + CountryPrices list) \<times> world" where
  "get_prices py self srv country free_price w =
     (case request self ''getPrices'' (get_prices_params srv country free_price) w of
        (Inl e, w') \<Rightarrow> (Inl e, w')
      | (Inr response, w') \<Rightarrow>
          (case json_loads py response of
             None \<Rightarrow> (Inl (ValueError (''Error parsing prices or received error: '' @ response)), w')
           | Some data \<Rightarrow>
               (case standard_prices py data of
                  Inl e \<Rightarrow> (Inl (ValueError (''Error parsing prices or received error: '' @ response)), w')
                | Inr result \<Rightarrow> (Inr result, w'))))"

section \<open>Top countries by service\<close>

type_synonym country_map = "(int \<times> (string \<times> ServicePrice) list) list"

text \<open>\<open>entry.get\<close> on anything but a dict is an \<open>AttributeError\<close>.\<close>

definition process_entry :: "builtins \<Rightarrow> string \<Rightarrow> json \<Rightarrow> country_map \<Rightarrow> exn + country_map" where
  "process_entry py srv_code entry country_map =
     (case entry of
        JObject d \<Rightarrow>
          (let c = dict_get d ''country'' JNull
           in if c = JNull then Inr country_map
              else
                (case py_int py c of
                   Inl e \<Rightarrow> Inl e
                 | Inr c_id \<Rightarrow>
                     (let country_map =
                            (if map_of country_map c_id = None then country_map @ [(c_id, [])]
                             else country_map)
                      in case py_float py (py_or (py_or (dict_get d ''price'' (JInt 0))
                                                        (dict_get d ''cost'' (JInt 0))) (JInt 0)) of
                           Inl e \<Rightarrow> Inl e
                         | Inr base_cost \<Rightarrow>
                             (case price_fields py base_cost (dict_get d ''freePriceMap'' JNull) of
                                Inl e \<Rightarrow> Inl e
                              | Inr (c, min_p, max_p) \<Rightarrow>
                                  (case py_int py (py_or (dict_get d ''count'' (JInt 0)) (JInt 0)) of
                                     Inl e \<Rightarrow> Inl e
                                   | Inr n \<Rightarrow>
                                       Inr (AList.map_entry c_id
                                              (AList.update srv_code
                                                 \<lparr>service = srv_code, cost = c, min_price = min_p,
                                                  max_price = max_p, count = n\<rparr>)
                                              country_map))))))
      | _ \<Rightarrow> Inl AttributeError)"

fun is_dict :: "json \<Rightarrow> bool" where
  "is_dict (JObject _) = True"
| "is_dict _ = False"

text \<open>
  \<open>for entry in entries\<close>; with \<open>guard\<close> the loop body is under
  \<open>if isinstance(entry, dict)\<close>, as it is when a service was requested.
\<close>

fun process_entries ::
  "builtins \<Rightarrow> bool \<Rightarrow> string \<Rightarrow> json list \<Rightarrow> country_map \<Rightarrow> exn + country_map" where
  "process_entries py guard srv_code [] country_map = Inr country_map"
| "process_entries py guard srv_code (entry # rest) country_map =
     (if guard \<and> \<not> is_dict entry then process_entries py guard srv_code rest country_map
      else
        (case process_entry py srv_code entry country_map of
           Inl e \<Rightarrow> Inl e
         | Inr country_map' \<Rightarrow> process_entries py guard srv_code rest country_map'))"

text \<open>The entries as a list, or the values of an index-keyed dict; anything else is passed over.\<close>

definition process_collection ::
  "builtins \<Rightarrow> bool \<Rightarrow> string \<Rightarrow> json \<Rightarrow> country_map \<Rightarrow> exn + country_map" where
  "process_collection py guard srv_code entries country_map =
     (case entries of
        JList xs \<Rightarrow> process_entries py guard srv_code xs country_map
      | JObject kvs \<Rightarrow> process_entries py guard srv_code (map snd kvs) country_map
      | _ \<Rightarrow> Inr country_map)"

text \<open>\<open>for srv_code, entries in item.items()\<close>.\<close>

fun process_items ::
  "builtins \<Rightarrow> (string \<times> json) list \<Rightarrow> country_map \<Rightarrow> exn + country_map" where
  "process_items py [] country_map = Inr country_map"
| "process_items py ((srv_code, entries) # rest) country_map =
     (case process_collection py False srv_code entries country_map of
        Inl e \<Rightarrow> Inl e
      | Inr country_map' \<Rightarrow> process_items py rest country_map')"

text \<open>\<open>for item in data\<close>, the body under \<open>if isinstance(item, dict)\<close>.\<close>

fun process_list :: "builtins \<Rightarrow> json list \<Rightarrow> country_map \<Rightarrow> exn + country_map" where
  "process_list py [] country_map = Inr country_map"
| "process_list py (JObject kvs # rest) country_map =
     (case process_items py kvs country_map of
        Inl e \<Rightarrow> Inl e
      | Inr country_map' \<Rightarrow> process_list py rest country_map')"
| "process_list py (_ # rest) country_map = process_list py rest country_map"

text \<open>The body of the \<open>try\<close> of \<open>get_top_countries_by_service\<close> after \<open>json.loads\<close>.\<close>

definition top_countries :: "builtins \<Rightarrow> string option \<Rightarrow> json \<Rightarrow> exn + CountryPrices list" where
  "top_countries py srv data =
     (case
        (if truthy srv then
           (let entries =
                  (case data of
                     JObject d \<Rightarrow> (case map_of d (the srv) of Some v \<Rightarrow> v | None \<Rightarrow> data)
                   | _ \<Rightarrow> data)
            in process_collection py True (the srv) entries [])
         else
           (case data of
              JList items \<Rightarrow> process_list py items []
            | JObject d \<Rightarrow> process_items py d []
            | _ \<Rightarrow> Inr []))
      of
        Inl e \<Rightarrow> Inl e
      | Inr country_map \<Rightarrow>
          Inr (map (\<lambda>(cid, srvs). \<lparr>country_id = cid, services = srvs\<rparr>) country_map))"

definition top_countries_params :: "string option \<Rightarrow> bool option \<Rightarrow> query" where
  "top_countries_params srv free_price =
     (let params = [];
          params = (if truthy srv then AList.update ''service'' (PStr (the srv)) params else params)
      in if free_price = Some True then AList.update ''freePrice'' (PBool True) params else params)"

definition get_top_countries_by_service ::
  "builtins \<Rightarrow> client \<Rightarrow> string option \<Rightarrow> bool option \<Rightarrow> world
     \<Rightarrow> (exn + CountryPrices list) \<times> world" where
  "get_top_countries_by_service py self srv free_price w =
     (case request self ''getTopCountriesByService'' (top_countries_params srv free_price) w of
        (Inl e, w') \<Rightarrow> (Inl e, w')
      | (Inr response, w') \<Rightarrow>
          (case (case json_loads py response of
                   None \<Rightarrow> Inl ConversionError
                 | Some data \<Rightarrow> top_countries py srv data) of
             Inl e \<Rightarrow>
               (Inl (ValueErrorCause
                       (''Error parsing top countries: '' @ take 200 response
                          @ ''... Internal error: '') e), w')
           | Inr result \<Rightarrow> (Inr result, w')))"

text \<open>\<open>HeroSMSClient.get_prices\<close>: the top countries, filtered by country afterwards.\<close>

definition herosms_get_prices ::
  "builtins \<Rightarrow> client \<Rightarrow> string option \<Rightarrow> int option \<Rightarrow> bool option \<Rightarrow> world
     \<Rightarrow> (exn + CountryPrices list) \<times> world" where
  "herosms_get_prices py self srv country free_price w =
     (case get_top_countries_by_service py self srv free_price w of
        (Inl e, w') \<Rightarrow> (Inl e, w')
      | (Inr results, w') \<Rightarrow>
          (case country of
             Some c \<Rightarrow> (Inr (filter (\<lambda>r. country_id r = c) results), w')
           | None \<Rightarrow> (Inr results, w')))"

section \<open>SMSBower price parsing\<close>

text \<open>The v2 loop over \<open>srv_data.items()\<close> and the v3 loop over \<open>srv_data.values()\<close>.\<close>

fun collect_v2 ::
  "builtins \<Rightarrow> (string \<times> json) list \<Rightarrow> pyfloat list \<Rightarrow> int \<Rightarrow> exn + pyfloat list \<times> int" where
  "collect_v2 py [] prices total_count = Inr (prices, total_count)"
| "collect_v2 py ((price_str, cnt) # rest) prices total_count =
     (case float_str py price_str of
        None \<Rightarrow> Inl ConversionError
      | Some p \<Rightarrow>
          (case py_int py cnt of
             Inl e \<Rightarrow> Inl e
           | Inr n \<Rightarrow> collect_v2 py rest (prices @ [p]) (total_count + n)))"

fun collect_v3 ::
  "builtins \<Rightarrow> json list \<Rightarrow> pyfloat list \<Rightarrow> int \<Rightarrow> exn + pyfloat list \<times> int" where
  "collect_v3 py [] prices total_count = Inr (prices, total_count)"
| "collect_v3 py (JObject provider_data # rest) prices total_count =
     (case py_float py (dict_get provider_data ''price'' (JInt 0)) of
        Inl e \<Rightarrow> Inl e
      | Inr p \<Rightarrow>
          (case py_int py (dict_get provider_data ''count'' (JInt 0)) of
             Inl e \<Rightarrow> Inl e
           | Inr n \<Rightarrow> collect_v3 py rest (prices @ [p]) (total_count + n)))"
| "collect_v3 py (_ # rest) prices total_count = Inl AttributeError"

text \<open>
  The body of the loop over the services of one country: the service's entry, or
  \<open>None\<close> when no price was collected and nothing is stored. \<open>prices[0]\<close> on the
  sorted list is an \<open>IndexError\<close> should the list be empty.
\<close>

definition complex_service ::
  "builtins \<Rightarrow> string \<Rightarrow> string \<Rightarrow> json \<Rightarrow> exn + ServicePrice option" where
  "complex_service py version srv_code srv_data =
     (case srv_data of
        JObject d \<Rightarrow>
          (case (if version = ''v2'' then collect_v2 py d [] 0
                 else collect_v3 py (map snd d) [] 0) of
             Inl e \<Rightarrow> Inl e
           | Inr (prices, total_count) \<Rightarrow>
               if prices \<noteq> [] then
                 (let prices = list_sort py prices
                  in if prices = [] then Inl IndexError
                     else Inr (Some \<lparr>service = srv_code,
                                     cost = (if length prices > 1 then Prices prices
                                             else Scalar (hd prices)),
                                     min_price = hd prices, max_price = last prices,
                                     count = total_count\<rparr>))
               else Inr None)
      | _ \<Rightarrow> Inl AttributeError)"

fun complex_services ::
  "builtins \<Rightarrow> string \<Rightarrow> (string \<times> json) list \<Rightarrow> (string \<times> ServicePrice) list
     \<Rightarrow> exn + (string \<times> ServicePrice) list" where
  "complex_services py version [] service_map = Inr service_map"
| "complex_services py version ((srv_code, srv_data) # rest) service_map =
     (case complex_service py version srv_code srv_data of
        Inl e \<Rightarrow> Inl e
      | Inr None \<Rightarrow> complex_services py version rest service_map
      | Inr (Some sp) \<Rightarrow>
          complex_services py version rest (AList.update srv_code sp service_map))"

fun complex_countries ::
  "builtins \<Rightarrow> string \<Rightarrow> (string \<times> json) list \<Rightarrow> CountryPrices list
     \<Rightarrow> exn + CountryPrices list" where
  "complex_countries py version [] result = Inr result"
| "complex_countries py version ((cid, JObject srvs) # rest) result =
     (case complex_services py version srvs [] of
        Inl e \<Rightarrow> Inl e
      | Inr service_map \<Rightarrow>
          if service_map \<noteq> [] then
            (case int_str py cid of
               None \<Rightarrow> Inl ConversionError
             | Some c \<Rightarrow>
                 complex_countries py version rest
                   (result @ [\<lparr>country_id = c, services = service_map\<rparr>]))
          else complex_countries py version rest result)"
| "complex_countries py version (_ # rest) result = Inl AttributeError"

text \<open>\<open>parse_complex_prices\<close> is the method \<open>_parse_complex_prices\<close>.\<close>

definition parse_complex_prices :: "builtins \<Rightarrow> json \<Rightarrow> string \<Rightarrow> exn + CountryPrices list" where
  "parse_complex_prices py data version =
     (case data of
        JObject d \<Rightarrow> complex_countries py version d []
      | _ \<Rightarrow> Inl AttributeError)"

definition complex_prices_params :: "string option \<Rightarrow> int option \<Rightarrow> query" where
  "complex_prices_params srv country =
     (let params = [];
          params = (if truthy srv then AList.update ''service'' (PStr (the srv)) params else params)
      in case country of None \<Rightarrow> params
         | Some c \<Rightarrow> AList.update ''country'' (PInt c) params)"

definition get_prices_v2 ::
  "builtins \<Rightarrow> client \<Rightarrow> string option \<Rightarrow> int option \<Rightarrow> world
     \<Rightarrow> (exn + CountryPrices list) \<times> world" where
  "get_prices_v2 py self srv country w =
     (case request self ''getPricesV2'' (complex_prices_params srv country) w of
        (Inl e, w') \<Rightarrow> (Inl e, w')
      | (Inr response, w') \<Rightarrow>
          (case (case json_loads py response of
                   None \<Rightarrow> Inl ConversionError
                 | Some data \<Rightarrow> parse_complex_prices py data ''v2'') of
             Inl e \<Rightarrow>
               (Inl (ValueErrorCause
                       (''Error parsing prices V2: '' @ take 200 response
                          @ ''... Internal error: '') e), w')
           | Inr result \<Rightarrow> (Inr result, w')))"

definition get_prices_v3 ::
  "builtins \<Rightarrow> client \<Rightarrow> string option \<Rightarrow> int option \<Rightarrow> world
     \<Rightarrow> (exn + CountryPrices list) \<times> world" where
  "get_prices_v3 py self srv country w =
     (case request self ''getPricesV3'' (complex_prices_params srv country) w of
        (Inl e, w') \<Rightarrow> (Inl e, w')
      | (Inr response, w') \<Rightarrow>
          (case (case json_loads py response of
                   None \<Rightarrow> Inl ConversionError
                 | Some data \<Rightarrow> parse_complex_prices py data ''v3'') of
             Inl e \<Rightarrow>
               (Inl (ValueErrorCause
                       (''Error parsing prices V3: '' @ take 200 response
                          @ ''... Internal error: '') e), w')
           | Inr result \<Rightarrow> (Inr result, w')))"

text \<open>\<open>SMSBowerClient.get_prices\<close> hands over to \<open>get_prices_v2\<close> and drops \<open>free_price\<close>.\<close>

definition smsbower_get_prices ::
  "builtins \<Rightarrow> client \<Rightarrow> string option \<Rightarrow> int option \<Rightarrow> bool option \<Rightarrow> world
     \<Rightarrow> (exn + CountryPrices list) \<times> world" where
  "smsbower_get_prices py self srv country free_price w = get_prices_v2 py self srv country w"

section \<open>Provider resolution\<close>

definition providers :: "(string \<times> client_class) list" where
  "providers =
     [(''smshub'', SMSHubClient), (''herosms'', HeroSMSClient),
      (''smsactivate'', SMSActivateClient), (''smsbower'', SMSBowerClient),
      (''hero'', HeroSMSClient), (''bower'', SMSBowerClient)]"

definition url_patterns :: "(string \<times> string) list" where
  "url_patterns =
     [(''smshub.org'', ''smshub''), (''hero-sms.com'', ''herosms''),
      (''sms-activate'', ''smsactivate''), (''smsbower'', ''smsbower'')]"

text \<open>The default \<open>base_url\<close> of each client class's constructor.\<close>

fun default_base_url :: "client_class \<Rightarrow> string" where
  "default_base_url SMSHubClient = ''https://smshub.org/stubs/handler_api.php''"
| "default_base_url HeroSMSClient = ''https://hero-sms.com/stubs/handler_api.php''"
| "default_base_url SMSActivateClient = ''https://api.sms-activate.ae/stubs/handler_api.php''"
| "default_base_url SMSBowerClient = ''https://smsbower.page/stubs/handler_api.php''"

text \<open>The loop over \<open>_url_patterns\<close> with its \<open>break\<close>: the first pattern found in the URL.\<close>

fun match_url :: "(string \<times> string) list \<Rightarrow> string \<Rightarrow> string option" where
  "match_url [] u = None"
| "match_url ((pattern, key) # ps) u = (if str_in pattern u then Some key else match_url ps u)"

definition normalize_provider :: "builtins \<Rightarrow> string \<Rightarrow> string" where
  "normalize_provider py p =
     str_strip py (str_remove CHR ''_'' (str_remove CHR ''-'' (str_lower py p)))"

text \<open>Step 1 of \<open>get_client\<close>: the provider key, \<open>None\<close> when it stays unset.\<close>

definition identify_provider ::
  "builtins \<Rightarrow> string option \<Rightarrow> string option \<Rightarrow> string option" where
  "identify_provider py provider url =
     (if truthy provider then Some (normalize_provider py (the provider))
      else if truthy url then
        (case match_url url_patterns (str_lower py (the url)) of
           Some key \<Rightarrow> Some key
         | None \<Rightarrow> Some ''smshub'')
      else None)"

definition missing_provider_message :: string where
  "missing_provider_message =
     ''Could not identify provider. Please provide '' @ [CHR 0x27] @ ''provider'' @ [CHR 0x27]
       @ '' name or '' @ [CHR 0x27] @ ''base_url'' @ [CHR 0x27] @ ''.''"

definition unsupported_provider_message :: "string \<Rightarrow> string" where
  "unsupported_provider_message provider_key =
     ''Provider '' @ [CHR 0x27] @ provider_key @ [CHR 0x27] @ '' is not supported. ''
       @ ''Available providers: '' @ str_join '', '' (map fst providers)"

text \<open>Every client class declares \<open>__init__(self, api_key, proxy, timeout, base_url)\<close>.\<close>

definition init_signature :: "string list" where
  "init_signature = [''self'', ''api_key'', ''proxy'', ''timeout'', ''base_url'']"

text \<open>
  \<open>kwargs\<close> holds the names of the extra keyword arguments of the call, which are
  names other than \<open>get_client\<close>'s own parameters. The constructor stores
  \<open>base_url.rstrip("/")\<close>.
\<close>

definition get_client ::
  "builtins \<Rightarrow> string \<Rightarrow> string option \<Rightarrow> string option \<Rightarrow> string option \<Rightarrow> int
     \<Rightarrow> string list \<Rightarrow> exn + client" where
  "get_client py key provider url prx tmo kwargs =
     (let provider_key = identify_provider py provider url
      in if \<not> truthy provider_key then Inl (ValueError missing_provider_message)
         else
           (case map_of providers (the provider_key) of
              None \<Rightarrow> Inl (ValueError (unsupported_provider_message (the provider_key)))
            | Some client_class \<Rightarrow>
                (let kwargs = (if truthy url then kwargs @ [''base_url''] else kwargs)
                 in case bind_keywords init_signature 1
                           ([''api_key'', ''proxy'', ''timeout''] @ kwargs) of
                      Inl e \<Rightarrow> Inl e
                    | Inr _ \<Rightarrow>
                        Inr \<lparr>cls = client_class, api_key = key,
                             base_url = str_rstrip CHR ''/''
                               (if truthy url then the url else default_base_url client_class),
                             proxy = prx, timeout = tmo\<rparr>)))"

section \<open>The price invariant\<close>

text \<open>
  The invariant the specification states for a \<open>ServicePrice\<close>, with Python's
  comparisons: the minimum and the maximum bound every value of \<open>cost\<close>, and a scalar
  \<open>cost\<close> equals both. \<open>nan_free\<close> says that no value of \<open>cost\<close> is NaN, and
  \<open>price_ok\<close> is the invariant for the service prices that are free of NaN.
\<close>

definition price_invariant :: "ServicePrice \<Rightarrow> bool" where
  "price_invariant sp =
     (case cost sp of
        Scalar c \<Rightarrow> float_eq (min_price sp) c \<and> float_eq (max_price sp) c
      | Prices ps \<Rightarrow> list_all (\<lambda>p. float_le (min_price sp) p \<and> float_le p (max_price sp)) ps)"

definition nan_free :: "ServicePrice \<Rightarrow> bool" where
  "nan_free sp = (case cost sp of Scalar c \<Rightarrow> c \<noteq> NaN | Prices ps \<Rightarrow> NaN \<notin> set ps)"

definition price_ok :: "ServicePrice \<Rightarrow> bool" where
  "price_ok sp = (nan_free sp \<longrightarrow> price_invariant sp)"

definition services_ok :: "(string \<times> ServicePrice) list \<Rightarrow> bool" where
  "services_ok service_map = list_all (\<lambda>(k, sp). price_ok sp) service_map"

definition prices_ok :: "CountryPrices list \<Rightarrow> bool" where
  "prices_ok result = list_all (\<lambda>cp. services_ok (services cp)) result"

text \<open>The same for the country map that \<open>process_entry\<close> fills.\<close>

definition country_map_ok :: "country_map \<Rightarrow> bool" where
  "country_map_ok cm = list_all (\<lambda>(cid, srvs). services_ok srvs) cm"

text \<open>
  What is known of \<open>list.sort()\<close>: the result is a rearrangement of the list, and it
  is ascending when the list holds no NaN. With a NaN in the list the order of the
  result depends on the sorting algorithm.
\<close>

definition sort_ok :: "builtins \<Rightarrow> bool" where
  "sort_ok py =
     (\<forall>xs. mset (list_sort py xs) = mset xs
         \<and> (NaN \<notin> set xs \<longrightarrow> sorted_wrt float_le (list_sort py xs)))"

section \<open>What the SMSBower parser derives\<close>

text \<open>
  The derivation in the words of the specification. \<open>price_reads\<close> relates the
  mapping of one service to the prices and counts read off it, one pair for each key
  and in the order of the keys: under v2 the key read with \<open>float()\<close> and its value
  with \<open>int()\<close>, under v3 the \<open>price\<close> and the \<open>count\<close> of each provider.
\<close>

definition price_reads ::
  "builtins \<Rightarrow> string \<Rightarrow> (string \<times> json) list \<Rightarrow> (pyfloat \<times> int) list \<Rightarrow> bool" where
  "price_reads py version d pcs =
     (if version = ''v2'' then
        list_all2 (\<lambda>(price_str, cnt) (p, n).
                     float_str py price_str = Some p \<and> py_int py cnt = Inr n) d pcs
      else
        list_all2 (\<lambda>(provider_id, provider_data) (p, n).
                     \<exists>pd. provider_data = JObject pd
                       \<and> py_float py (dict_get pd ''price'' (JInt 0)) = Inr p
                       \<and> py_int py (dict_get pd ''count'' (JInt 0)) = Inr n) d pcs)"

text \<open>
  The entry derived from the pairs: nothing is stored when there is no price; the cost
  is the one price when there is exactly one, and all the prices as \<open>list.sort()\<close>
  leaves them otherwise; minimum and maximum are the first and the last of the sorted
  prices; the count is the sum of the counts.
\<close>

definition derived_price ::
  "builtins \<Rightarrow> string \<Rightarrow> (pyfloat \<times> int) list \<Rightarrow> ServicePrice option" where
  "derived_price py srv_code pcs =
     (if pcs = [] then None
      else Some \<lparr>service = srv_code,
                 cost = (if length pcs = 1 then Scalar (fst (hd pcs))
                         else Prices (list_sort py (map fst pcs))),
                 min_price = hd (list_sort py (map fst pcs)),
                 max_price = last (list_sort py (map fst pcs)),
                 count = sum_list (map snd pcs)\<rparr>)"

definition service_derived ::
  "builtins \<Rightarrow> string \<Rightarrow> string \<Rightarrow> json \<Rightarrow> ServicePrice option \<Rightarrow> bool" where
  "service_derived py version srv_code srv_data r =
     (\<exists>d pcs. srv_data = JObject d \<and> price_reads py version d pcs
        \<and> r = derived_price py srv_code pcs)"

text \<open>
  The services of one country: every service is derived, those with no price are
  dropped, and the others are stored under their service code in the order of the
  payload. A country left with no service is dropped; otherwise its id is read with
  \<open>int()\<close>.
\<close>

definition kept_services ::
  "(string \<times> json) list \<Rightarrow> ServicePrice option list \<Rightarrow> (string \<times> ServicePrice) list" where
  "kept_services srvs rs =
     List.map_filter (\<lambda>(kv, r). map_option (\<lambda>sp. (fst kv, sp)) r) (zip srvs rs)"

definition country_derived ::
  "builtins \<Rightarrow> string \<Rightarrow> string \<Rightarrow> json \<Rightarrow> CountryPrices option \<Rightarrow> bool" where
  "country_derived py version cid srv_obj r =
     (\<exists>srvs rs. srv_obj = JObject srvs
        \<and> list_all2 (\<lambda>(srv_code, srv_data) r. service_derived py version srv_code srv_data r) srvs rs
        \<and> (if dict_merge [] (kept_services srvs rs) = [] then r = None
            else \<exists>c. int_str py cid = Some c
                   \<and> r = Some \<lparr>country_id = c,
                               services = dict_merge [] (kept_services srvs rs)\<rparr>))"

definition prices_derived :: "builtins \<Rightarrow> string \<Rightarrow> json \<Rightarrow> CountryPrices list \<Rightarrow> bool" where
  "prices_derived py version data result =
     (\<exists>countries cs. data = JObject countries
        \<and> list_all2 (\<lambda>(cid, srv_obj) r. country_derived py version cid srv_obj r) countries cs
        \<and> result = List.map_filter (\<lambda>r. r) cs)"

section \<open>Concrete runs\<close>

text \<open>
  To run the clients on concrete inputs the interpreter functions are fixed to
  functions that agree with the interpreter on the inputs of the runs below:
  \<^item> \<open>ascii_lower\<close> and \<open>ascii_strip\<close> are \<open>str.lower()\<close> and \<open>str.strip()\<close> on
    ASCII text;
  \<^item> \<open>decimal_float\<close> and \<open>decimal_int\<close> read plain decimal numerals (digits, and
    for a float optionally a point followed by digits) and \<open>nan\<close>; the numerals of
    the runs are binary fractions, on which \<open>float()\<close> gives the number written;
  \<^item> \<open>small_float_int\<close> is \<open>float()\<close> on the integers up to \<open>2 ^ 53\<close> in size, which
    a float holds exactly;
  \<^item> \<open>insertion_sort\<close> sorts by insertion with Python's \<open><\<close>, the result of
    \<open>list.sort()\<close> on the lists of the runs;
  \<^item> \<open>payloads\<close> holds the JSON payloads of the package's test suite, and three more,
    with the values \<open>json.loads\<close> gives for them.
\<close>

definition ascii_lower_char :: "char \<Rightarrow> char" where
  "ascii_lower_char c =
     (case map_of (zip ''ABCDEFGHIJKLMNOPQRSTUVWXYZ'' ''abcdefghijklmnopqrstuvwxyz'') c of
        None \<Rightarrow> c
      | Some d \<Rightarrow> d)"

definition ascii_lower :: "string \<Rightarrow> string" where
  "ascii_lower s = map ascii_lower_char s"

definition ascii_space :: "char \<Rightarrow> bool" where
  "ascii_space c =
     (c \<in> set [CHR 0x09, CHR 0x0A, CHR 0x0B, CHR 0x0C, CHR 0x0D,
                CHR 0x1C, CHR 0x1D, CHR 0x1E, CHR 0x1F, CHR 0x20])"

definition ascii_strip :: "string \<Rightarrow> string" where
  "ascii_strip s = rev (dropWhile ascii_space (rev (dropWhile ascii_space s)))"

definition digit_val :: "char \<Rightarrow> nat option" where
  "digit_val c = map_of (zip ''0123456789'' [0, 1, 2, 3, 4, 5, 6, 7, 8, 9]) c"

fun digits_val :: "nat \<Rightarrow> string \<Rightarrow> nat option" where
  "digits_val acc [] = Some acc"
| "digits_val acc (c # cs) =
     (case digit_val c of None \<Rightarrow> None | Some d \<Rightarrow> digits_val (10 * acc + d) cs)"

definition decimal_int :: "string \<Rightarrow> int option" where
  "decimal_int s = (if s = [] then None else map_option int (digits_val 0 s))"

definition decimal_float :: "string \<Rightarrow> pyfloat option" where
  "decimal_float s =
     (if s = ''nan'' then Some NaN
      else
        (let ip = takeWhile (\<lambda>c. c \<noteq> CHR ''.'') s; rest = dropWhile (\<lambda>c. c \<noteq> CHR ''.'') s
         in if ip = [] then None
            else
              (case digits_val 0 ip of
                 None \<Rightarrow> None
               | Some n \<Rightarrow>
                   (case rest of
                      [] \<Rightarrow> Some (Finite (real n))
                    | _ # fp \<Rightarrow>
                        if fp = [] then None
                        else
                          (case digits_val 0 fp of
                             None \<Rightarrow> None
                           | Some m \<Rightarrow> Some (Finite (real n + real m / 10 ^ length fp)))))))"

definition small_float_int :: "int \<Rightarrow> pyfloat option" where
  "small_float_int i = (if \<bar>i\<bar> \<le> 2 ^ 53 then Some (Finite (real_of_int i)) else None)"

fun insert_lt :: "pyfloat \<Rightarrow> pyfloat list \<Rightarrow> pyfloat list" where
  "insert_lt x [] = [x]"
| "insert_lt x (y # ys) = (if float_lt y x then y # insert_lt x ys else x # y # ys)"

definition insertion_sort :: "pyfloat list \<Rightarrow> pyfloat list" where
  "insertion_sort xs = foldr insert_lt xs []"

definition payload_standard :: string where
  \<open>payload_standard = ''{"0": {"tg": {"cost": 10.5, "count": 100}}}''\<close>

definition payload_v2 :: string where
  \<open>payload_v2 = ''{"0": {"tg": {"10.5": 100, "15.0": 50}}}''\<close>

definition payload_v2_same_price :: string where
  \<open>payload_v2_same_price = ''{"0": {"tg": {"10.5": 100, "10.50": 50}}}''\<close>

definition payload_v2_nan :: string where
  \<open>payload_v2_nan = ''{"0": {"tg": {"2.0": 1, "nan": 1, "1.0": 1}}}''\<close>

definition payload_v2_two :: string where
  \<open>payload_v2_two = ''{"0": {"tg": {"10.5": 100}, "wa": {}}, "6": {"vk": {"2.0": 1, "1.0": 4}}}''\<close>

definition payload_v3 :: string where
  \<open>payload_v3 =
     ''{"0": {"tg": {"prov1": {"price": 12.0, "count": 10}, "prov2": {"price": 15.0, "count": 5}}}}''\<close>

definition payload_top :: string where
  \<open>payload_top = ''{"tg": {"0": {"country": 0, "price": 10.0, "count": 100}}}''\<close>

definition json_v2_nan :: json where
  "json_v2_nan =
     JObject [(''0'', JObject [(''tg'', JObject
        [(''2.0'', JInt 1), (''nan'', JInt 1), (''1.0'', JInt 1)])])]"

definition json_v2_two :: json where
  "json_v2_two =
     JObject [(''0'', JObject [(''tg'', JObject [(''10.5'', JInt 100)]), (''wa'', JObject [])]),
              (''6'', JObject [(''vk'', JObject [(''2.0'', JInt 1), (''1.0'', JInt 4)])])]"

definition payloads :: "(string \<times> json) list" where
  "payloads =
     [(payload_standard,
       JObject [(''0'', JObject [(''tg'', JObject
          [(''cost'', JFloat (Finite 10.5)), (''count'', JInt 100)])])]),
      (payload_v2,
       JObject [(''0'', JObject [(''tg'', JObject [(''10.5'', JInt 100), (''15.0'', JInt 50)])])]),
      (payload_v2_same_price,
       JObject [(''0'', JObject [(''tg'', JObject [(''10.5'', JInt 100), (''10.50'', JInt 50)])])]),
      (payload_v2_nan, json_v2_nan),
      (payload_v2_two, json_v2_two),
      (payload_v3,
       JObject [(''0'', JObject [(''tg'', JObject
          [(''prov1'', JObject [(''price'', JFloat (Finite 12)), (''count'', JInt 10)]),
           (''prov2'', JObject [(''price'', JFloat (Finite 15)), (''count'', JInt 5)])])])]),
      (payload_top,
       JObject [(''tg'', JObject [(''0'', JObject
          [(''country'', JInt 0), (''price'', JFloat (Finite 10)), (''count'', JInt 100)])])])]"

definition test_builtins :: builtins where
  "test_builtins =
     \<lparr>float_str = decimal_float, float_int = small_float_int, int_str = decimal_int,
      json_loads = map_of payloads, list_sort = insertion_sort,
      str_lower = ascii_lower, str_strip = ascii_strip\<rparr>"

definition test_client :: client where
  "test_client =
     \<lparr>cls = SMSHubClient, api_key = ''test_key'',
      base_url = ''https://smshub.org/stubs/handler_api.php'', proxy = None, timeout = 30\<rparr>"

section \<open>Facts about strings and the transport\<close>

lemma str_in_iff: "str_in pat s \<longleftrightarrow> (\<exists>pre post. s = pre @ pat @ post)"
proof (induction s)
  case Nil
  then show ?case by auto
next
  case (Cons c cs)
  show ?case
  proof
    assume "str_in pat (c # cs)"
    then consider "prefix pat (c # cs)" | "str_in pat cs" by auto
    then show "\<exists>pre post. c # cs = pre @ pat @ post"
    proof cases
      case 1
      then obtain post where "c # cs = pat @ post" by (auto simp: prefix_def)
      then have "c # cs = [] @ pat @ post" by simp
      then show ?thesis by blast
    next
      case 2
      with Cons obtain pre post where "cs = pre @ pat @ post" by blast
      then have "c # cs = (c # pre) @ pat @ post" by simp
      then show ?thesis by blast
    qed
  next
    assume "\<exists>pre post. c # cs = pre @ pat @ post"
    then obtain pre post where e: "c # cs = pre @ pat @ post" by blast
    show "str_in pat (c # cs)"
    proof (cases pre)
      case Nil
      with e have "prefix pat (c # cs)" by (simp add: prefix_def)
      then show ?thesis by simp
    next
      case (Cons d pre')
      with e have "cs = pre' @ pat @ post" by simp
      with Cons.IH have "str_in pat cs" by blast
      then show ?thesis by simp
    qed
  qed
qed

lemma str_split_nonempty: "str_split sep s \<noteq> []"
  by (induction s) (auto split: list.splits)

lemma str_split_no_sep: "sep \<notin> set s \<Longrightarrow> str_split sep s = [s]"
  by (induction s) auto

lemma str_split_append: "sep \<notin> set a \<Longrightarrow> str_split sep (a @ sep # b) = a # str_split sep b"
  by (induction a) (auto split: list.splits simp: str_split_nonempty)

lemma str_split_hd: "hd (str_split sep s) = takeWhile (\<lambda>c. c \<noteq> sep) s"
  by (induction s) (auto split: list.splits simp: str_split_nonempty)

lemma str_split_decompose:
  "sep \<in> set s \<Longrightarrow>
     str_split sep s = takeWhile (\<lambda>c. c \<noteq> sep) s # str_split sep (tl (dropWhile (\<lambda>c. c \<noteq> sep) s))"
  by (induction s) (auto split: list.splits simp: str_split_nonempty)

lemma str_split_second:
  assumes "sep \<in> set s"
  shows "py_index (str_split sep s) 1 =
           Inr (takeWhile (\<lambda>c. c \<noteq> sep) (tl (dropWhile (\<lambda>c. c \<noteq> sep) s)))"
proof -
  let ?t = "tl (dropWhile (\<lambda>c. c \<noteq> sep) s)"
  have "str_split sep s = takeWhile (\<lambda>c. c \<noteq> sep) s # str_split sep ?t"
    using assms by (rule str_split_decompose)
  moreover obtain p ps where "str_split sep ?t = p # ps"
    using str_split_nonempty [of sep ?t] by (cases "str_split sep ?t") auto
  moreover from this have "p = takeWhile (\<lambda>c. c \<noteq> sep) ?t"
    using str_split_hd [of sep ?t] by simp
  ultimately show ?thesis by (simp add: py_index_def)
qed

lemma access_number_parts_ok:
  assumes "CHR '':'' \<notin> set tag" "CHR '':'' \<notin> set i" "CHR '':'' \<notin> set p"
  shows "access_number_parts (tag @ '':'' @ i @ '':'' @ p) = Inr (i, p)"
proof -
  have "str_split CHR '':'' (tag @ CHR '':'' # i @ CHR '':'' # p) = [tag, i, p]"
    using assms by (simp add: str_split_append str_split_no_sep)
  then show ?thesis by (simp add: access_number_parts_def py_index_def)
qed

lemma request_sent:
  "sent (snd (request self action params w)) =
     sent w @ [(base_url self,
                dict_merge [(''api_key'', PStr (api_key self)), (''action'', PStr action)] params)]"
  by (simp add: request_def http_get_def Let_def split: list.splits http_response.splits)

lemmas run_defs = request_def http_get_def dict_merge_def is_success_def errors_def Let_def
  test_client_def py_index_def

lemma get_new_sms_fails:
  "fst (get_new_sms self aid tmo interval w) =
     (case fst (set_status self aid 3 w) of Inl e \<Rightarrow> Inl e | Inr _ \<Rightarrow> Inl TypeError)"
  by (simp add: get_new_sms_def bind_keywords_def get_sms_signature_def split: prod.splits sum.splits)

section \<open>Asking for a second code\<close>

text \<open>
  Claim C1. \<open>get_new_sms\<close> is meant to send \<open>setStatus\<close> with status 3 and then to
  query the status once and return the code. It sends the \<open>setStatus\<close> request, and
  then calls \<open>get_sms\<close> with the keywords \<open>timeout\<close> and \<open>interval\<close>, which
  \<open>get_sms\<close> does not accept: whenever the status is set, the call ends in a
  \<open>TypeError\<close> and no status query is sent. Here the vendor has the code ready as its
  second response, and it is never asked for.
\<close>

theorem get_new_sms_never_queries:
  "get_new_sms test_client ''12345'' 60 5
     \<lparr>script = [Response 200 ''ACCESS_READY'', Response 200 ''STATUS_OK:123456''], sent = []\<rparr> =
   (Inl TypeError,
    \<lparr>script = [Response 200 ''STATUS_OK:123456''],
     sent = [(''https://smshub.org/stubs/handler_api.php'',
              [(''api_key'', PStr ''test_key''), (''action'', PStr ''setStatus''),
               (''id'', PStr ''12345''), (''status'', PInt 3)])]\<rparr>)"
  by (simp add: get_new_sms_def set_status_def bind_keywords_def get_sms_signature_def run_defs)

section \<open>The operator sent by \<open>get_number\<close>\<close>

text \<open>
  Claim C9. \<open>get_number\<close> sends exactly one request. Its \<open>operator\<close> parameter is
  present when the caller supplied a non-empty operator; it is the literal \<open>any\<close>
  when a country other than 73 was supplied, and the caller's own value when the country
  is 73 or was omitted.
\<close>

theorem get_number_operator_sent:
  "sent (snd (get_number self srv country operator w)) =
     sent w @
     [(base_url self,
       [(''api_key'', PStr (api_key self)), (''action'', PStr ''getNumber''), (''service'', PStr srv)]
       @ (case country of None \<Rightarrow> [] | Some c \<Rightarrow> [(''country'', PInt c)])
       @ (case operator of
            None \<Rightarrow> []
          | Some op \<Rightarrow>
              if op = [] then []
              else [(''operator'',
                     PStr (if country = None \<or> country = Some 73 then op else ''any''))]))]"
proof -
  have "sent (snd (get_number self srv country operator w)) =
          sent (snd (request self ''getNumber'' (get_number_params srv country operator) w))"
    by (simp add: get_number_def split: prod.splits sum.splits)
  also have "\<dots> = sent w @ [(base_url self,
                dict_merge [(''api_key'', PStr (api_key self)), (''action'', PStr ''getNumber'')]
                  (get_number_params srv country operator))]"
    by (rule request_sent)
  finally show ?thesis
    by (simp add: dict_merge_def get_number_params_def Let_def split: option.splits)
qed

theorem get_number_operator_sent_witness:
  "sent (snd (get_number test_client ''tg'' (Some 0) (Some ''mts'') \<lparr>script = [], sent = []\<rparr>)) =
     [(''https://smshub.org/stubs/handler_api.php'',
       [(''api_key'', PStr ''test_key''), (''action'', PStr ''getNumber''),
        (''service'', PStr ''tg''), (''country'', PInt 0), (''operator'', PStr ''any'')])]
   \<and> sent (snd (get_number test_client ''tg'' (Some 73) (Some ''mts'') \<lparr>script = [], sent = []\<rparr>)) =
     [(''https://smshub.org/stubs/handler_api.php'',
       [(''api_key'', PStr ''test_key''), (''action'', PStr ''getNumber''),
        (''service'', PStr ''tg''), (''country'', PInt 73), (''operator'', PStr ''mts'')])]
   \<and> sent (snd (get_number test_client ''tg'' None (Some ''mts'') \<lparr>script = [], sent = []\<rparr>)) =
     [(''https://smshub.org/stubs/handler_api.php'',
       [(''api_key'', PStr ''test_key''), (''action'', PStr ''getNumber''),
        (''service'', PStr ''tg''), (''operator'', PStr ''mts'')])]"
  using get_number_operator_sent [of test_client "''tg''" "Some 0" "Some ''mts''" "\<lparr>script = [], sent = []\<rparr>"]
    get_number_operator_sent [of test_client "''tg''" "Some 73" "Some ''mts''" "\<lparr>script = [], sent = []\<rparr>"]
    get_number_operator_sent [of test_client "''tg''" None "Some ''mts''" "\<lparr>script = [], sent = []\<rparr>"]
  by (simp add: test_client_def)

section \<open>The single status check of \<open>get_sms\<close>\<close>

text \<open>
  Claim C10. \<open>get_sms\<close> sends exactly one \<open>getStatus\<close> request for the activation id,
  whatever the answer. When the status read from the answer is exactly \<open>STATUS_OK\<close>
  it returns the code that came with it; for every other status it returns \<open>None\<close>;
  a failed query is passed on. In terms of the response text: the code is returned when
  the text starts with \<open>STATUS_OK:\<close>, and \<open>None\<close> otherwise.
\<close>

theorem get_sms_single_check:
  "sent (snd (get_sms self aid w)) =
     sent w @ [(base_url self,
                [(''api_key'', PStr (api_key self)), (''action'', PStr ''getStatus''),
                 (''id'', PStr aid)])]
   \<and> (\<forall>st w'. get_status self aid w = (Inr st, w') \<longrightarrow>
         get_sms self aid w = (Inr (if status st = ''STATUS_OK'' then code st else None), w'))
   \<and> (\<forall>e w'. get_status self aid w = (Inl e, w') \<longrightarrow> get_sms self aid w = (Inl e, w'))
   \<and> (\<forall>response w'. request self ''getStatus'' [(''id'', PStr aid)] w = (Inr response, w') \<longrightarrow>
         get_sms self aid w =
           (Inr (if prefix ''STATUS_OK:'' response then Some (drop 10 response) else None), w'))"
proof (intro conjI allI impI)
  have "sent (snd (get_sms self aid w)) =
          sent (snd (request self ''getStatus'' [(''id'', PStr aid)] w))"
    by (simp add: get_sms_def get_status_def split: prod.splits sum.splits)
  then show "sent (snd (get_sms self aid w)) =
     sent w @ [(base_url self,
                [(''api_key'', PStr (api_key self)), (''action'', PStr ''getStatus''),
                 (''id'', PStr aid)])]"
    by (simp add: request_sent dict_merge_def)
next
  fix st w' assume "get_status self aid w = (Inr st, w')"
  then show "get_sms self aid w = (Inr (if status st = ''STATUS_OK'' then code st else None), w')"
    by (simp add: get_sms_def)
next
  fix e w' assume "get_status self aid w = (Inl e, w')"
  then show "get_sms self aid w = (Inl e, w')"
    by (simp add: get_sms_def)
next
  fix response w'
  assume r: "request self ''getStatus'' [(''id'', PStr aid)] w = (Inr response, w')"
  show "get_sms self aid w =
           (Inr (if prefix ''STATUS_OK:'' response then Some (drop 10 response) else None), w')"
  proof (cases "prefix ''STATUS_OK:'' response")
    case True
    then obtain cd where "response = ''STATUS_OK:'' @ cd" by (auto simp: prefix_def)
    with r show ?thesis
      by (simp add: get_sms_def get_status_def str_split1_def)
  next
    case False
    show ?thesis
    proof (cases "CHR '':'' \<in> set response")
      case c: True
      have "takeWhile (\<lambda>c. c \<noteq> CHR '':'') response \<noteq> ''STATUS_OK''"
      proof
        assume t: "takeWhile (\<lambda>c. c \<noteq> CHR '':'') response = ''STATUS_OK''"
        have "response = takeWhile (\<lambda>c. c \<noteq> CHR '':'') response @ dropWhile (\<lambda>c. c \<noteq> CHR '':'') response"
          by simp
        moreover from c have "dropWhile (\<lambda>c. c \<noteq> CHR '':'') response \<noteq> []" by simp
        then have "hd (dropWhile (\<lambda>c. c \<noteq> CHR '':'') response) = CHR '':''"
          using hd_dropWhile [of "\<lambda>c. c \<noteq> CHR '':''" response] by simp
        with \<open>dropWhile (\<lambda>c. c \<noteq> CHR '':'') response \<noteq> []\<close>
        obtain r' where "dropWhile (\<lambda>c. c \<noteq> CHR '':'') response = CHR '':'' # r'"
          by (cases "dropWhile (\<lambda>c. c \<noteq> CHR '':'') response") auto
        ultimately have "response = ''STATUS_OK'' @ CHR '':'' # r'" using t by simp
        then have "prefix ''STATUS_OK:'' response" by (simp add: prefix_def)
        with False show False by simp
      qed
      with r c False show ?thesis
        by (simp add: get_sms_def get_status_def str_split1_def)
    next
      case n: False
      with r False show ?thesis
        by (simp add: get_sms_def get_status_def)
    qed
  qed
qed

theorem get_sms_single_check_witness:
  "get_sms test_client ''12345'' \<lparr>script = [Response 200 ''STATUS_OK:123456''], sent = []\<rparr> =
     (Inr (Some ''123456''),
      \<lparr>script = [],
       sent = [(''https://smshub.org/stubs/handler_api.php'',
                [(''api_key'', PStr ''test_key''), (''action'', PStr ''getStatus''),
                 (''id'', PStr ''12345'')])]\<rparr>)
   \<and> get_sms test_client ''12345'' \<lparr>script = [Response 200 ''STATUS_WAIT_CODE''], sent = []\<rparr> =
     (Inr None,
      \<lparr>script = [],
       sent = [(''https://smshub.org/stubs/handler_api.php'',
                [(''api_key'', PStr ''test_key''), (''action'', PStr ''getStatus''),
                 (''id'', PStr ''12345'')])]\<rparr>)"
proof -
  let ?q = "[(''https://smshub.org/stubs/handler_api.php'',
              [(''api_key'', PStr ''test_key''), (''action'', PStr ''getStatus''),
               (''id'', PStr ''12345'')])]"
  have ok: "request test_client ''getStatus'' [(''id'', PStr ''12345'')]
              \<lparr>script = [Response 200 ''STATUS_OK:123456''], sent = []\<rparr> =
            (Inr ''STATUS_OK:123456'', \<lparr>script = [], sent = ?q\<rparr>)"
    by (simp add: run_defs)
  have wait: "request test_client ''getStatus'' [(''id'', PStr ''12345'')]
              \<lparr>script = [Response 200 ''STATUS_WAIT_CODE''], sent = []\<rparr> =
            (Inr ''STATUS_WAIT_CODE'', \<lparr>script = [], sent = ?q\<rparr>)"
    by (simp add: run_defs)
  have "get_sms test_client ''12345'' \<lparr>script = [Response 200 ''STATUS_OK:123456''], sent = []\<rparr> =
          (Inr (if prefix ''STATUS_OK:'' ''STATUS_OK:123456'' then Some (drop 10 ''STATUS_OK:123456'')
                else None), \<lparr>script = [], sent = ?q\<rparr>)"
    using get_sms_single_check [of test_client "''12345''"
        "\<lparr>script = [Response 200 ''STATUS_OK:123456''], sent = []\<rparr>"] ok by blast
  moreover have "get_sms test_client ''12345'' \<lparr>script = [Response 200 ''STATUS_WAIT_CODE''], sent = []\<rparr> =
          (Inr (if prefix ''STATUS_OK:'' ''STATUS_WAIT_CODE'' then Some (drop 10 ''STATUS_WAIT_CODE'')
                else None), \<lparr>script = [], sent = ?q\<rparr>)"
    using get_sms_single_check [of test_client "''12345''"
        "\<lparr>script = [Response 200 ''STATUS_WAIT_CODE''], sent = []\<rparr>"] wait by blast
  ultimately show ?thesis by simp
qed

lemma request_first_error:
  assumes "script w = Response c text # rest" "is_success c" "text = pre @ tok @ post"
    "tok \<in> set errors"
  shows "\<exists>w'. request self action params w = (Inl (VendorError text), w')"
proof -
  from assms(3) have "str_in tok text" by (auto simp: str_in_iff)
  with assms(4) have "list_ex (\<lambda>err. str_in err text) errors" by (auto simp: list_ex_iff)
  with assms(1,2) show ?thesis
    by (simp add: request_def http_get_def Let_def VendorError_def)
qed

section \<open>Vendor error tokens\<close>

text \<open>
  Claim C3. Every operation starts with a request. When the body of the response
  to that request contains one of the six tokens \<open>BAD_KEY\<close>, \<open>ERROR_SQL\<close>,
  \<open>BAD_ACTION\<close>, \<open>WRONG_ACTIVATION_ID\<close>, \<open>NO_KEY\<close>, \<open>BANNED\<close> anywhere in
  its text, the operation fails with the vendor error carrying the whole text,
  whatever the action and its parameters.
\<close>

theorem vendor_error_fails_every_operation:
  assumes "script w = Response c text # rest" and "is_success c"
    and "text = pre @ tok @ post"
    and "tok \<in> {''BAD_KEY'', ''ERROR_SQL'', ''BAD_ACTION'', ''WRONG_ACTIVATION_ID'', ''NO_KEY'', ''BANNED''}"
  shows "fst (request self action params w) = Inl (VendorError text)
    \<and> fst (get_balance py self w) = Inl (VendorError text)
    \<and> fst (get_number self srv country operator w) = Inl (VendorError text)
    \<and> fst (set_status self aid st w) = Inl (VendorError text)
    \<and> fst (active_status self aid w) = Inl (VendorError text)
    \<and> fst (reactivation_number self aid w) = Inl (VendorError text)
    \<and> fst (get_status self aid w) = Inl (VendorError text)
    \<and> fst (get_sms self aid w) = Inl (VendorError text)
    \<and> fst (get_new_sms self aid tmo interval w) = Inl (VendorError text)
    \<and> fst (get_prices py self osrv country free_price w) = Inl (VendorError text)
    \<and> fst (get_top_countries_by_service py self osrv free_price w) = Inl (VendorError text)
    \<and> fst (herosms_get_prices py self osrv country free_price w) = Inl (VendorError text)
    \<and> fst (get_prices_v2 py self osrv country w) = Inl (VendorError text)
    \<and> fst (get_prices_v3 py self osrv country w) = Inl (VendorError text)
    \<and> fst (smsbower_get_prices py self osrv country free_price w) = Inl (VendorError text)"
proof -
  from assms(4) have tok: "tok \<in> set errors" by (simp add: errors_def)
  have r: "\<exists>w'. request self a ps w = (Inl (VendorError text), w')" for a ps
    using request_first_error [OF assms(1,2,3) tok] .
  have 0: "fst (request self action params w) = Inl (VendorError text)"
    using r [of action params] by auto
  have 1: "fst (get_balance py self w) = Inl (VendorError text)"
    using r [of "''getBalance''" "[]"] by (auto simp: get_balance_def)
  have 2: "fst (get_number self srv country operator w) = Inl (VendorError text)"
    using r [of "''getNumber''" "get_number_params srv country operator"]
    by (auto simp: get_number_def)
  have 3: "fst (set_status self i s w) = Inl (VendorError text)" for i s
    using r [of "''setStatus''" "[(''id'', PStr i), (''status'', PInt s)]"]
    by (auto simp: set_status_def)
  have 4: "fst (active_status self aid w) = Inl (VendorError text)"
    using 3 by (simp add: active_status_def)
  have 5: "fst (reactivation_number self aid w) = Inl (VendorError text)"
    using r [of "''getExtraActivation''" "[(''activationId'', PStr aid)]"]
    by (auto simp: reactivation_number_def)
  have 6: "fst (get_status self aid w) = Inl (VendorError text)"
    using r [of "''getStatus''" "[(''id'', PStr aid)]"] by (auto simp: get_status_def)
  have 7: "fst (get_sms self aid w) = Inl (VendorError text)"
    using 6 by (cases "get_status self aid w") (auto simp: get_sms_def)
  have 8: "fst (get_new_sms self aid tmo interval w) = Inl (VendorError text)"
    using 3 [of aid 3] by (cases "set_status self aid 3 w") (auto simp: get_new_sms_def)
  have 9: "fst (get_prices py self osrv country free_price w) = Inl (VendorError text)"
    using r [of "''getPrices''" "get_prices_params osrv country free_price"]
    by (auto simp: get_prices_def)
  have 10: "fst (get_top_countries_by_service py self osrv free_price w) = Inl (VendorError text)"
    using r [of "''getTopCountriesByService''" "top_countries_params osrv free_price"]
    by (auto simp: get_top_countries_by_service_def)
  have 11: "fst (herosms_get_prices py self osrv country free_price w) = Inl (VendorError text)"
    using 10 by (cases "get_top_countries_by_service py self osrv free_price w")
      (auto simp: herosms_get_prices_def)
  have 12: "fst (get_prices_v2 py self osrv country w) = Inl (VendorError text)"
    using r [of "''getPricesV2''" "complex_prices_params osrv country"]
    by (auto simp: get_prices_v2_def)
  have 13: "fst (get_prices_v3 py self osrv country w) = Inl (VendorError text)"
    using r [of "''getPricesV3''" "complex_prices_params osrv country"]
    by (auto simp: get_prices_v3_def)
  have 14: "fst (smsbower_get_prices py self osrv country free_price w) = Inl (VendorError text)"
    using 12 by (simp add: smsbower_get_prices_def)
  from 0 1 2 3 4 5 6 7 8 9 10 11 12 13 14 show ?thesis by blast
qed

theorem vendor_error_fails_every_operation_witness:
  "fst (get_balance test_builtins test_client
          \<lparr>script = [Response 200 ''BAD_KEY''], sent = []\<rparr>) = Inl (ValueError ''API Error: BAD_KEY'')
   \<and> fst (get_status test_client ''12345''
          \<lparr>script = [Response 200 ''error: BANNED now''], sent = []\<rparr>) =
       Inl (ValueError ''API Error: error: BANNED now'')"
proof -
  have s: "is_success 200" by (simp add: is_success_def)
  have w1: "script \<lparr>script = [Response 200 ''BAD_KEY''], sent = []\<rparr> = Response 200 ''BAD_KEY'' # []"
    by simp
  have t1: "''BAD_KEY'' = [] @ ''BAD_KEY'' @ []" by simp
  have m1: "''BAD_KEY'' \<in> {''BAD_KEY'', ''ERROR_SQL'', ''BAD_ACTION'', ''WRONG_ACTIVATION_ID'', ''NO_KEY'', ''BANNED''}"
    by simp
  have w2: "script \<lparr>script = [Response 200 ''error: BANNED now''], sent = []\<rparr> =
              Response 200 ''error: BANNED now'' # []"
    by simp
  have t2: "''error: BANNED now'' = ''error: '' @ ''BANNED'' @ '' now''" by simp
  have m2: "''BANNED'' \<in> {''BAD_KEY'', ''ERROR_SQL'', ''BAD_ACTION'', ''WRONG_ACTIVATION_ID'', ''NO_KEY'', ''BANNED''}"
    by simp
  have a: "fst (get_balance test_builtins test_client
          \<lparr>script = [Response 200 ''BAD_KEY''], sent = []\<rparr>) = Inl (VendorError ''BAD_KEY'')"
    using vendor_error_fails_every_operation [OF w1 s t1 m1, of test_client _ _ test_builtins]
    by blast
  have b: "fst (get_status test_client ''12345''
          \<lparr>script = [Response 200 ''error: BANNED now''], sent = []\<rparr>) =
       Inl (VendorError ''error: BANNED now'')"
    using vendor_error_fails_every_operation [OF w2 s t2 m2, of test_client _ _ _ _ _ _ "''12345''"]
    by blast
  from a b show ?thesis by (simp add: VendorError_def)
qed

section \<open>Parsing the answer to \<open>getNumber\<close>\<close>

text \<open>
  Claim C4. When the vendor's answer to \<open>getNumber\<close> is
  \<open>ACCESS_NUMBER:<id>:<phone>\<close> with no colon in the id or in the phone,
  \<open>get_number\<close> returns an activation with exactly that id and phone; when the answer
  does not start with \<open>ACCESS_NUMBER\<close>, it fails with the \<open>ValueError\<close>
  \<open>Error getting number\<close>, the parse error of the specification.
\<close>

theorem get_number_parse:
  assumes "request self ''getNumber'' (get_number_params srv country operator) w = (Inr response, w')"
  shows "(\<forall>i p. response = ''ACCESS_NUMBER:'' @ i @ '':'' @ p \<and> CHR '':'' \<notin> set i \<and> CHR '':'' \<notin> set p \<longrightarrow>
            get_number self srv country operator w =
              (Inr \<lparr>activation_id = i, phone_number = p, na_service = srv, na_cost = None\<rparr>, w'))
       \<and> (\<not> prefix ''ACCESS_NUMBER'' response \<longrightarrow>
            get_number self srv country operator w =
              (Inl (ValueError (''Error getting number: '' @ response)), w'))"
proof (intro conjI allI impI)
  fix i p
  assume h: "response = ''ACCESS_NUMBER:'' @ i @ '':'' @ p \<and> CHR '':'' \<notin> set i \<and> CHR '':'' \<notin> set p"
  then have "access_number_parts (''ACCESS_NUMBER'' @ '':'' @ i @ '':'' @ p) = Inr (i, p)"
    by (intro access_number_parts_ok) auto
  with h assms show "get_number self srv country operator w =
              (Inr \<lparr>activation_id = i, phone_number = p, na_service = srv, na_cost = None\<rparr>, w')"
    by (simp add: get_number_def)
next
  assume "\<not> prefix ''ACCESS_NUMBER'' response"
  with assms show "get_number self srv country operator w =
              (Inl (ValueError (''Error getting number: '' @ response)), w')"
    by (simp add: get_number_def)
qed

theorem get_number_parse_witness:
  "get_number test_client ''tg'' (Some 0) None
     \<lparr>script = [Response 200 ''ACCESS_NUMBER:12345:79991234567''], sent = []\<rparr> =
   (Inr \<lparr>activation_id = ''12345'', phone_number = ''79991234567'', na_service = ''tg'',
         na_cost = None\<rparr>,
    \<lparr>script = [],
     sent = [(''https://smshub.org/stubs/handler_api.php'',
              [(''api_key'', PStr ''test_key''), (''action'', PStr ''getNumber''),
               (''service'', PStr ''tg''), (''country'', PInt 0)])]\<rparr>)
   \<and> get_number test_client ''tg'' (Some 0) None
     \<lparr>script = [Response 200 ''NO_NUMBERS''], sent = []\<rparr> =
   (Inl (ValueError ''Error getting number: NO_NUMBERS''),
    \<lparr>script = [],
     sent = [(''https://smshub.org/stubs/handler_api.php'',
              [(''api_key'', PStr ''test_key''), (''action'', PStr ''getNumber''),
               (''service'', PStr ''tg''), (''country'', PInt 0)])]\<rparr>)"
proof -
  let ?w' = "\<lparr>script = [],
     sent = [(''https://smshub.org/stubs/handler_api.php'',
              [(''api_key'', PStr ''test_key''), (''action'', PStr ''getNumber''),
               (''service'', PStr ''tg''), (''country'', PInt 0)])]\<rparr>"
  have r1: "request test_client ''getNumber'' (get_number_params ''tg'' (Some 0) None)
              \<lparr>script = [Response 200 ''ACCESS_NUMBER:12345:79991234567''], sent = []\<rparr> =
            (Inr ''ACCESS_NUMBER:12345:79991234567'', ?w')"
    by (simp add: run_defs get_number_params_def)
  have r2: "request test_client ''getNumber'' (get_number_params ''tg'' (Some 0) None)
              \<lparr>script = [Response 200 ''NO_NUMBERS''], sent = []\<rparr> = (Inr ''NO_NUMBERS'', ?w')"
    by (simp add: run_defs get_number_params_def)
  have f: "''ACCESS_NUMBER:12345:79991234567'' = ''ACCESS_NUMBER:'' @ ''12345'' @ '':'' @ ''79991234567''
             \<and> CHR '':'' \<notin> set ''12345'' \<and> CHR '':'' \<notin> set ''79991234567''"
    by simp
  have n: "\<not> prefix ''ACCESS_NUMBER'' ''NO_NUMBERS''" by simp
  have a: "get_number test_client ''tg'' (Some 0) None
     \<lparr>script = [Response 200 ''ACCESS_NUMBER:12345:79991234567''], sent = []\<rparr> =
   (Inr \<lparr>activation_id = ''12345'', phone_number = ''79991234567'', na_service = ''tg'',
         na_cost = None\<rparr>, ?w')"
    using get_number_parse [OF r1] f by blast
  have b: "get_number test_client ''tg'' (Some 0) None
     \<lparr>script = [Response 200 ''NO_NUMBERS''], sent = []\<rparr> =
   (Inl (ValueError (''Error getting number: '' @ ''NO_NUMBERS'')), ?w')"
    using get_number_parse [OF r2] n by blast
  from a b show ?thesis by simp
qed

section \<open>Reactivation\<close>

text \<open>
  Claim C2, as the code has it. When the vendor answers \<open>getExtraActivation\<close> with
  \<open>ACCESS_NUMBER:<id>:<phone>\<close>, \<open>reactivation_number\<close> sends exactly two
  requests, \<open>getExtraActivation\<close> for the old id and then \<open>setStatus\<close> with status 1
  for the new id. When the second request succeeds it returns the activation with the
  new id and the phone; when the second request fails, the call fails with that
  request's error and returns no activation.
\<close>

theorem reactivation_two_calls:
  assumes "request self ''getExtraActivation'' [(''activationId'', PStr aid)] w =
             (Inr (''ACCESS_NUMBER:'' @ i @ '':'' @ p), w1)"
    and "CHR '':'' \<notin> set i" and "CHR '':'' \<notin> set p"
  shows "sent (snd (reactivation_number self aid w)) =
           sent w @
           [(base_url self,
             [(''api_key'', PStr (api_key self)), (''action'', PStr ''getExtraActivation''),
              (''activationId'', PStr aid)]),
            (base_url self,
             [(''api_key'', PStr (api_key self)), (''action'', PStr ''setStatus''),
              (''id'', PStr i), (''status'', PInt 1)])]
       \<and> (\<forall>answer w2.
            request self ''setStatus'' [(''id'', PStr i), (''status'', PInt 1)] w1 = (Inr answer, w2) \<longrightarrow>
            reactivation_number self aid w =
              (Inr \<lparr>activation_id = i, phone_number = p, na_service = ''reactivation'',
                    na_cost = None\<rparr>, w2))
       \<and> (\<forall>e w2.
            request self ''setStatus'' [(''id'', PStr i), (''status'', PInt 1)] w1 = (Inl e, w2) \<longrightarrow>
            reactivation_number self aid w = (Inl e, w2))"
proof -
  have parts: "access_number_parts (''ACCESS_NUMBER'' @ '':'' @ i @ '':'' @ p) = Inr (i, p)"
    using assms(2,3) by (intro access_number_parts_ok) auto
  have s1: "sent w1 = sent w @ [(base_url self,
             [(''api_key'', PStr (api_key self)), (''action'', PStr ''getExtraActivation''),
              (''activationId'', PStr aid)])]"
    using request_sent [of self "''getExtraActivation''" "[(''activationId'', PStr aid)]" w] assms(1)
    by (simp add: dict_merge_def)
  have run: "reactivation_number self aid w =
      (case request self ''setStatus'' [(''id'', PStr i), (''status'', PInt 1)] w1 of
         (Inl e, w2) \<Rightarrow> (Inl e, w2)
       | (Inr _, w2) \<Rightarrow>
           (Inr \<lparr>activation_id = i, phone_number = p, na_service = ''reactivation'',
                 na_cost = None\<rparr>, w2))"
    using assms(1) parts by (simp add: reactivation_number_def active_status_def set_status_def)
  have "sent (snd (reactivation_number self aid w)) =
          sent (snd (request self ''setStatus'' [(''id'', PStr i), (''status'', PInt 1)] w1))"
    unfolding run by (simp split: prod.splits sum.splits)
  also have "\<dots> = sent w1 @ [(base_url self,
             [(''api_key'', PStr (api_key self)), (''action'', PStr ''setStatus''),
              (''id'', PStr i), (''status'', PInt 1)])]"
    by (simp add: request_sent dict_merge_def)
  finally have a: "sent (snd (reactivation_number self aid w)) =
           sent w @
           [(base_url self,
             [(''api_key'', PStr (api_key self)), (''action'', PStr ''getExtraActivation''),
              (''activationId'', PStr aid)]),
            (base_url self,
             [(''api_key'', PStr (api_key self)), (''action'', PStr ''setStatus''),
              (''id'', PStr i), (''status'', PInt 1)])]"
    using s1 by simp
  have b: "\<forall>answer w2.
            request self ''setStatus'' [(''id'', PStr i), (''status'', PInt 1)] w1 = (Inr answer, w2) \<longrightarrow>
            reactivation_number self aid w =
              (Inr \<lparr>activation_id = i, phone_number = p, na_service = ''reactivation'',
                    na_cost = None\<rparr>, w2)"
    unfolding run by simp
  have c: "\<forall>e w2.
            request self ''setStatus'' [(''id'', PStr i), (''status'', PInt 1)] w1 = (Inl e, w2) \<longrightarrow>
            reactivation_number self aid w = (Inl e, w2)"
    unfolding run by simp
  from a b c show ?thesis by blast
qed

theorem reactivation_two_calls_witness:
  "reactivation_number test_client ''12345''
     \<lparr>script = [Response 200 ''ACCESS_NUMBER:67890:79990000000'',
                Response 200 ''ACCESS_NUMBER:67890:79990000000''], sent = []\<rparr> =
   (Inr \<lparr>activation_id = ''67890'', phone_number = ''79990000000'',
         na_service = ''reactivation'', na_cost = None\<rparr>,
    \<lparr>script = [],
     sent = [(''https://smshub.org/stubs/handler_api.php'',
              [(''api_key'', PStr ''test_key''), (''action'', PStr ''getExtraActivation''),
               (''activationId'', PStr ''12345'')]),
             (''https://smshub.org/stubs/handler_api.php'',
              [(''api_key'', PStr ''test_key''), (''action'', PStr ''setStatus''),
               (''id'', PStr ''67890''), (''status'', PInt 1)])]\<rparr>)
   \<and> reactivation_number test_client ''12345''
     \<lparr>script = [Response 200 ''ACCESS_NUMBER:67890:79990000000'', Response 200 ''NO_KEY''],
      sent = []\<rparr> =
   (Inl (ValueError ''API Error: NO_KEY''),
    \<lparr>script = [],
     sent = [(''https://smshub.org/stubs/handler_api.php'',
              [(''api_key'', PStr ''test_key''), (''action'', PStr ''getExtraActivation''),
               (''activationId'', PStr ''12345'')]),
             (''https://smshub.org/stubs/handler_api.php'',
              [(''api_key'', PStr ''test_key''), (''action'', PStr ''setStatus''),
               (''id'', PStr ''67890''), (''status'', PInt 1)])]\<rparr>)"
proof -
  let ?q1 = "(''https://smshub.org/stubs/handler_api.php'',
              [(''api_key'', PStr ''test_key''), (''action'', PStr ''getExtraActivation''),
               (''activationId'', PStr ''12345'')])"
  let ?q2 = "(''https://smshub.org/stubs/handler_api.php'',
              [(''api_key'', PStr ''test_key''), (''action'', PStr ''setStatus''),
               (''id'', PStr ''67890''), (''status'', PInt 1)])"
  let ?w1 = "\<lparr>script = [Response 200 ''ACCESS_NUMBER:67890:79990000000''], sent = [?q1]\<rparr>"
  let ?v1 = "\<lparr>script = [Response 200 ''NO_KEY''], sent = [?q1]\<rparr>"
  have r1: "request test_client ''getExtraActivation'' [(''activationId'', PStr ''12345'')]
              \<lparr>script = [Response 200 ''ACCESS_NUMBER:67890:79990000000'',
                         Response 200 ''ACCESS_NUMBER:67890:79990000000''], sent = []\<rparr> =
            (Inr (''ACCESS_NUMBER:'' @ ''67890'' @ '':'' @ ''79990000000''), ?w1)"
    by (simp add: run_defs)
  have s1: "request test_client ''getExtraActivation'' [(''activationId'', PStr ''12345'')]
              \<lparr>script = [Response 200 ''ACCESS_NUMBER:67890:79990000000'',
                         Response 200 ''NO_KEY''], sent = []\<rparr> =
            (Inr (''ACCESS_NUMBER:'' @ ''67890'' @ '':'' @ ''79990000000''), ?v1)"
    by (simp add: run_defs)
  have c1: "CHR '':'' \<notin> set ''67890''" by simp
  have c2: "CHR '':'' \<notin> set ''79990000000''" by simp
  have r2: "request test_client ''setStatus'' [(''id'', PStr ''67890''), (''status'', PInt 1)] ?w1 =
            (Inr ''ACCESS_NUMBER:67890:79990000000'', \<lparr>script = [], sent = [?q1, ?q2]\<rparr>)"
    by (simp add: run_defs)
  have s2: "request test_client ''setStatus'' [(''id'', PStr ''67890''), (''status'', PInt 1)] ?v1 =
            (Inl (ValueError ''API Error: NO_KEY''), \<lparr>script = [], sent = [?q1, ?q2]\<rparr>)"
    by (simp add: run_defs)
  have a: "reactivation_number test_client ''12345''
     \<lparr>script = [Response 200 ''ACCESS_NUMBER:67890:79990000000'',
                Response 200 ''ACCESS_NUMBER:67890:79990000000''], sent = []\<rparr> =
   (Inr \<lparr>activation_id = ''67890'', phone_number = ''79990000000'',
         na_service = ''reactivation'', na_cost = None\<rparr>, \<lparr>script = [], sent = [?q1, ?q2]\<rparr>)"
    using reactivation_two_calls [OF r1 c1 c2] r2 by blast
  have b: "reactivation_number test_client ''12345''
     \<lparr>script = [Response 200 ''ACCESS_NUMBER:67890:79990000000'', Response 200 ''NO_KEY''],
      sent = []\<rparr> =
   (Inl (ValueError ''API Error: NO_KEY''), \<lparr>script = [], sent = [?q1, ?q2]\<rparr>)"
    using reactivation_two_calls [OF s1 c1 c2] s2 by blast
  from a b show ?thesis by blast
qed

text \<open>
  The claim has every successful answer to \<open>getExtraActivation\<close> end in a returned
  activation. Here that answer is successful, the vendor then answers \<open>setStatus\<close>
  with status 503, and the call raises after its two requests.
\<close>

theorem reactivation_status_fails_counterexample:
  "reactivation_number test_client ''12345''
     \<lparr>script = [Response 200 ''ACCESS_NUMBER:67890:79990000000'', Response 503 []],
      sent = []\<rparr> =
   (Inl (HTTPStatusError 503),
    \<lparr>script = [],
     sent = [(''https://smshub.org/stubs/handler_api.php'',
              [(''api_key'', PStr ''test_key''), (''action'', PStr ''getExtraActivation''),
               (''activationId'', PStr ''12345'')]),
             (''https://smshub.org/stubs/handler_api.php'',
              [(''api_key'', PStr ''test_key''), (''action'', PStr ''setStatus''),
               (''id'', PStr ''67890''), (''status'', PInt 1)])]\<rparr>)"
  by (simp add: reactivation_number_def active_status_def set_status_def
      access_number_parts_def run_defs)

section \<open>Parsing the balance\<close>

text \<open>
  Claim C5, as the code has it. \<open>get_balance\<close> fails with the \<open>ValueError\<close>
  \<open>Unexpected balance response\<close> when the answer has no colon. Otherwise it reads
  the field between the first colon and the next one (or the end of the text) with
  \<open>float()\<close>: the amount is the number \<open>float()\<close> gives for that field, and the
  call fails when \<open>float()\<close> rejects that field. For \<open>ACCESS_BALANCE:<x>\<close> with no
  colon in \<open>x\<close> the field is \<open>x\<close>.
\<close>

theorem get_balance_second_field:
  assumes "request self ''getBalance'' [] w = (Inr response, w')"
  shows "(CHR '':'' \<notin> set response \<longrightarrow>
            get_balance py self w =
              (Inl (ValueError (''Unexpected balance response: '' @ response)), w'))
       \<and> (CHR '':'' \<in> set response \<longrightarrow>
            get_balance py self w =
              (case float_str py (takeWhile (\<lambda>c. c \<noteq> CHR '':'')
                                   (tl (dropWhile (\<lambda>c. c \<noteq> CHR '':'') response))) of
                 None \<Rightarrow> (Inl ConversionError, w')
               | Some a \<Rightarrow> (Inr \<lparr>amount = a, currency = ''RUB''\<rparr>, w')))
       \<and> (\<forall>tag x. response = tag @ '':'' @ x \<and> CHR '':'' \<notin> set tag \<and> CHR '':'' \<notin> set x \<longrightarrow>
            get_balance py self w =
              (case float_str py x of
                 None \<Rightarrow> (Inl ConversionError, w')
               | Some a \<Rightarrow> (Inr \<lparr>amount = a, currency = ''RUB''\<rparr>, w')))"
proof (intro conjI allI impI)
  assume "CHR '':'' \<notin> set response"
  with assms show "get_balance py self w =
              (Inl (ValueError (''Unexpected balance response: '' @ response)), w')"
    by (simp add: get_balance_def)
next
  assume "CHR '':'' \<in> set response"
  with assms show "get_balance py self w =
              (case float_str py (takeWhile (\<lambda>c. c \<noteq> CHR '':'')
                                   (tl (dropWhile (\<lambda>c. c \<noteq> CHR '':'') response))) of
                 None \<Rightarrow> (Inl ConversionError, w')
               | Some a \<Rightarrow> (Inr \<lparr>amount = a, currency = ''RUB''\<rparr>, w'))"
    using str_split_second [of "CHR '':''" response] by (simp add: get_balance_def)
next
  fix tag x
  assume h: "response = tag @ '':'' @ x \<and> CHR '':'' \<notin> set tag \<and> CHR '':'' \<notin> set x"
  then have "str_split CHR '':'' response = [tag, x]"
    by (simp add: str_split_append str_split_no_sep)
  with h assms show "get_balance py self w =
              (case float_str py x of
                 None \<Rightarrow> (Inl ConversionError, w')
               | Some a \<Rightarrow> (Inr \<lparr>amount = a, currency = ''RUB''\<rparr>, w'))"
    by (simp add: get_balance_def py_index_def)
qed

theorem get_balance_second_field_witness:
  "get_balance test_builtins test_client
     \<lparr>script = [Response 200 ''ACCESS_BALANCE:100.50''], sent = []\<rparr> =
   (Inr \<lparr>amount = Finite 100.5, currency = ''RUB''\<rparr>,
    \<lparr>script = [],
     sent = [(''https://smshub.org/stubs/handler_api.php'',
              [(''api_key'', PStr ''test_key''), (''action'', PStr ''getBalance'')])]\<rparr>)
   \<and> get_balance test_builtins test_client
     \<lparr>script = [Response 200 ''MAINTENANCE''], sent = []\<rparr> =
   (Inl (ValueError ''Unexpected balance response: MAINTENANCE''),
    \<lparr>script = [],
     sent = [(''https://smshub.org/stubs/handler_api.php'',
              [(''api_key'', PStr ''test_key''), (''action'', PStr ''getBalance'')])]\<rparr>)"
proof -
  let ?w' = "\<lparr>script = [],
     sent = [(''https://smshub.org/stubs/handler_api.php'',
              [(''api_key'', PStr ''test_key''), (''action'', PStr ''getBalance'')])]\<rparr>"
  have r1: "request test_client ''getBalance'' []
              \<lparr>script = [Response 200 ''ACCESS_BALANCE:100.50''], sent = []\<rparr> =
            (Inr ''ACCESS_BALANCE:100.50'', ?w')"
    by (simp add: run_defs)
  have r2: "request test_client ''getBalance'' []
              \<lparr>script = [Response 200 ''MAINTENANCE''], sent = []\<rparr> = (Inr ''MAINTENANCE'', ?w')"
    by (simp add: run_defs)
  have f: "''ACCESS_BALANCE:100.50'' = ''ACCESS_BALANCE'' @ '':'' @ ''100.50''
             \<and> CHR '':'' \<notin> set ''ACCESS_BALANCE'' \<and> CHR '':'' \<notin> set ''100.50''"
    by simp
  have n: "CHR '':'' \<notin> set ''MAINTENANCE''" by simp
  have v: "float_str test_builtins ''100.50'' = Some (Finite 100.5)"
    by (simp add: test_builtins_def decimal_float_def digit_val_def)
  have a: "get_balance test_builtins test_client
     \<lparr>script = [Response 200 ''ACCESS_BALANCE:100.50''], sent = []\<rparr> =
     (case float_str test_builtins ''100.50'' of
        None \<Rightarrow> (Inl ConversionError, ?w')
      | Some a \<Rightarrow> (Inr \<lparr>amount = a, currency = ''RUB''\<rparr>, ?w'))"
    using get_balance_second_field [OF r1, of test_builtins] f by blast
  have b: "get_balance test_builtins test_client
     \<lparr>script = [Response 200 ''MAINTENANCE''], sent = []\<rparr> =
     (Inl (ValueError (''Unexpected balance response: '' @ ''MAINTENANCE'')), ?w')"
    using get_balance_second_field [OF r2, of test_builtins] n by blast
  from a b v show ?thesis by simp
qed

text \<open>
  The claim has the call fail whenever the text after the first colon is not a valid
  number. \<open>12:34\<close> is not one, and the answer \<open>ACCESS_BALANCE:12:34\<close> gives the
  balance 12: only the field up to the second colon is read.
\<close>

theorem get_balance_reads_one_field_counterexample:
  "float_str test_builtins ''12:34'' = None
   \<and> get_balance test_builtins test_client
         \<lparr>script = [Response 200 ''ACCESS_BALANCE:12:34''], sent = []\<rparr> =
       (Inr \<lparr>amount = Finite 12, currency = ''RUB''\<rparr>,
        \<lparr>script = [],
         sent = [(''https://smshub.org/stubs/handler_api.php'',
                  [(''api_key'', PStr ''test_key''), (''action'', PStr ''getBalance'')])]\<rparr>)"
  by (simp add: get_balance_def run_defs test_builtins_def decimal_float_def digit_val_def)

section \<open>Resolving the provider\<close>

lemma providers_keys:
  "map_of providers k = None \<longleftrightarrow>
     k \<notin> {''smshub'', ''herosms'', ''smsactivate'', ''smsbower'', ''hero'', ''bower''}"
  by (simp add: providers_def)

lemma match_url_none:
  "match_url ps u = None \<longleftrightarrow> (\<forall>pat \<in> set (map fst ps). \<not> str_in pat u)"
  by (induction ps u rule: match_url.induct) auto

text \<open>
  Claim C7, as the code has it. A provider name is normalised by \<open>lower()\<close>, the
  removal of every \<open>-\<close> and \<open>_\<close>, and \<open>strip()\<close>, which removes the whitespace at
  both ends. When the normalised name is not empty and not in the registry,
  \<open>get_client\<close> fails with the \<open>ValueError\<close> that lists the six known names. When a
  name is given and its normalised form is empty, it fails with the message for a
  missing provider, whatever the base URL. When neither a name nor a base URL is given
  it fails with the message for a missing provider; \<open>get_client\<close> has no access to the
  transport, so nothing is sent. When only a base URL is given and none of the four
  patterns occurs in its lowercased text, the client is an \<open>SMSHubClient\<close> on that URL.
  All of this holds for any behaviour of \<open>lower()\<close> and \<open>strip()\<close>.
\<close>

theorem get_client_resolution:
  "(p \<noteq> [] \<and> normalize_provider py p \<noteq> []
      \<and> normalize_provider py p \<notin> {''smshub'', ''herosms'', ''smsactivate'', ''smsbower'', ''hero'', ''bower''} \<longrightarrow>
      get_client py key (Some p) url prx tmo kwargs =
        Inl (ValueError (''Provider '' @ [CHR 0x27] @ normalize_provider py p @ [CHR 0x27]
               @ '' is not supported. Available providers: ''
               @ ''smshub, herosms, smsactivate, smsbower, hero, bower'')))
   \<and> (p \<noteq> [] \<and> normalize_provider py p = [] \<longrightarrow>
        get_client py key (Some p) url prx tmo kwargs = Inl (ValueError missing_provider_message))
   \<and> (\<not> truthy provider \<and> \<not> truthy url \<longrightarrow>
        get_client py key provider url prx tmo kwargs = Inl (ValueError missing_provider_message))
   \<and> (\<not> truthy provider \<and> u \<noteq> []
        \<and> (\<forall>pat \<in> {''smshub.org'', ''hero-sms.com'', ''sms-activate'', ''smsbower''}.
              \<not> str_in pat (str_lower py u)) \<longrightarrow>
        get_client py key provider (Some u) prx tmo [] =
          Inr \<lparr>cls = SMSHubClient, api_key = key, base_url = str_rstrip CHR ''/'' u,
               proxy = prx, timeout = tmo\<rparr>)"
proof (intro conjI impI)
  assume h: "p \<noteq> [] \<and> normalize_provider py p \<noteq> []
      \<and> normalize_provider py p \<notin> {''smshub'', ''herosms'', ''smsactivate'', ''smsbower'', ''hero'', ''bower''}"
  then have "map_of providers (normalize_provider py p) = None"
    using providers_keys [of "normalize_provider py p"] by blast
  moreover have "str_join '', '' (map fst providers) =
      ''smshub, herosms, smsactivate, smsbower, hero, bower''"
    by (simp add: providers_def)
  ultimately show "get_client py key (Some p) url prx tmo kwargs =
        Inl (ValueError (''Provider '' @ [CHR 0x27] @ normalize_provider py p @ [CHR 0x27]
               @ '' is not supported. Available providers: ''
               @ ''smshub, herosms, smsactivate, smsbower, hero, bower''))"
    using h by (simp add: get_client_def identify_provider_def unsupported_provider_message_def)
next
  assume "p \<noteq> [] \<and> normalize_provider py p = []"
  then show "get_client py key (Some p) url prx tmo kwargs = Inl (ValueError missing_provider_message)"
    by (simp add: get_client_def identify_provider_def)
next
  assume "\<not> truthy provider \<and> \<not> truthy url"
  then show "get_client py key provider url prx tmo kwargs = Inl (ValueError missing_provider_message)"
    by (simp add: get_client_def identify_provider_def)
next
  assume h: "\<not> truthy provider \<and> u \<noteq> []
        \<and> (\<forall>pat \<in> {''smshub.org'', ''hero-sms.com'', ''sms-activate'', ''smsbower''}.
              \<not> str_in pat (str_lower py u))"
  then have "match_url url_patterns (str_lower py u) = None"
    by (simp only: match_url_none) (simp add: url_patterns_def)
  with h have "identify_provider py provider (Some u) = Some ''smshub''"
    by (simp add: identify_provider_def)
  moreover have "map_of providers ''smshub'' = Some SMSHubClient"
    by (simp add: providers_def)
  moreover have "bind_keywords init_signature 1 [''api_key'', ''proxy'', ''timeout'', ''base_url''] = Inr ()"
    by (simp add: bind_keywords_def init_signature_def)
  ultimately show "get_client py key provider (Some u) prx tmo [] =
          Inr \<lparr>cls = SMSHubClient, api_key = key, base_url = str_rstrip CHR ''/'' u,
               proxy = prx, timeout = tmo\<rparr>"
    using h by (simp add: get_client_def)
qed

lemmas ascii_defs = normalize_provider_def test_builtins_def ascii_lower_def ascii_lower_char_def
  str_remove_def ascii_strip_def ascii_space_def

theorem get_client_resolution_witness:
  "get_client test_builtins ''test_key'' (Some ''Foo-Bar'') None None 30 [] =
     Inl (ValueError (''Provider '' @ [CHR 0x27] @ ''foobar'' @ [CHR 0x27]
            @ '' is not supported. Available providers: ''
            @ ''smshub, herosms, smsactivate, smsbower, hero, bower''))
   \<and> get_client test_builtins ''test_key'' (Some ''_'') (Some ''https://hero-sms.com/api'') None 30 [] =
       Inl (ValueError missing_provider_message)
   \<and> get_client test_builtins ''test_key'' None None None 30 [] =
       Inl (ValueError missing_provider_message)
   \<and> get_client test_builtins ''test_key'' None (Some ''https://Example.com/api/'') None 30 [] =
       Inr \<lparr>cls = SMSHubClient, api_key = ''test_key'', base_url = ''https://Example.com/api'',
            proxy = None, timeout = 30\<rparr>"
proof -
  have n1: "normalize_provider test_builtins ''Foo-Bar'' = ''foobar''"
    by (simp add: ascii_defs)
  have n2: "normalize_provider test_builtins ''_'' = []"
    by (simp add: ascii_defs)
  have l: "str_lower test_builtins ''https://Example.com/api/'' = ''https://example.com/api/''"
    by (simp add: ascii_defs)
  have u: "\<forall>pat \<in> {''smshub.org'', ''hero-sms.com'', ''sms-activate'', ''smsbower''}.
              \<not> str_in pat (str_lower test_builtins ''https://Example.com/api/'')"
    unfolding l by simp
  have r: "str_rstrip CHR ''/'' ''https://Example.com/api/'' = ''https://Example.com/api''"
    by (simp add: str_rstrip_def)
  have a: "get_client test_builtins ''test_key'' (Some ''Foo-Bar'') None None 30 [] =
     Inl (ValueError (''Provider '' @ [CHR 0x27] @ normalize_provider test_builtins ''Foo-Bar''
            @ [CHR 0x27] @ '' is not supported. Available providers: ''
            @ ''smshub, herosms, smsactivate, smsbower, hero, bower''))"
    using get_client_resolution
      [where p = "''Foo-Bar''" and py = test_builtins and key = "''test_key''" and url = None
         and prx = None and tmo = 30 and kwargs = "[]"] n1
    by simp
  have b: "get_client test_builtins ''test_key'' (Some ''_'') (Some ''https://hero-sms.com/api'') None 30 [] =
       Inl (ValueError missing_provider_message)"
    using get_client_resolution
      [where p = "''_''" and py = test_builtins and key = "''test_key''"
         and url = "Some ''https://hero-sms.com/api''" and prx = None and tmo = 30 and kwargs = "[]"] n2
    by simp
  have c: "get_client test_builtins ''test_key'' None None None 30 [] =
       Inl (ValueError missing_provider_message)"
    using get_client_resolution
      [where py = test_builtins and key = "''test_key''" and url = None and prx = None
         and tmo = 30 and kwargs = "[]" and provider = None]
    by simp
  have d: "get_client test_builtins ''test_key'' None (Some ''https://Example.com/api/'') None 30 [] =
       Inr \<lparr>cls = SMSHubClient, api_key = ''test_key'',
            base_url = str_rstrip CHR ''/'' ''https://Example.com/api/'',
            proxy = None, timeout = 30\<rparr>"
    using get_client_resolution
      [where py = test_builtins and key = "''test_key''" and prx = None and tmo = 30
         and provider = None and u = "''https://Example.com/api/''"] u
    by simp
  from a b c d n1 r show ?thesis by simp
qed

text \<open>
  The claim has every name whose normalised form is not in the registry fail with the
  error that lists the known names. The name \<open>-\<close> normalises to the empty string,
  which is not in the registry, and fails with the message for a missing provider.
\<close>

theorem get_client_empty_key_counterexample:
  "normalize_provider test_builtins ''-'' \<notin> set (map fst providers)
   \<and> get_client test_builtins ''test_key'' (Some ''-'') None None 30 [] =
       Inl (ValueError missing_provider_message)
   \<and> get_client test_builtins ''test_key'' (Some ''-'') None None 30 [] \<noteq>
       Inl (ValueError (unsupported_provider_message (normalize_provider test_builtins ''-'')))"
  by (simp add: get_client_def identify_provider_def ascii_defs providers_def
      missing_provider_message_def unsupported_provider_message_def)

section \<open>The invariant of a service price\<close>

lemma float_le_refl: "x \<noteq> NaN \<Longrightarrow> float_le x x"
  by (simp add: float_le_def float_eq_def)

lemma float_le_total: "x \<noteq> NaN \<Longrightarrow> y \<noteq> NaN \<Longrightarrow> \<not> float_lt y x \<Longrightarrow> float_le x y"
  by (cases x; cases y) (auto simp: float_le_def float_eq_def)

lemma float_le_trans: "float_le x y \<Longrightarrow> float_le y z \<Longrightarrow> float_le x z"
  by (cases x; cases y; cases z) (auto simp: float_le_def float_eq_def)

lemma float_lt_le: "float_lt x y \<Longrightarrow> float_le x y"
  by (simp add: float_le_def)

lemma sorted_hd_last:
  "sorted_wrt float_le xs \<Longrightarrow> NaN \<notin> set xs \<Longrightarrow> x \<in> set xs \<Longrightarrow>
     float_le (hd xs) x \<and> float_le x (last xs)"
proof (induction xs arbitrary: x)
  case Nil
  then show ?case by simp
next
  case (Cons a xs)
  from Cons.prems have a: "a \<noteq> NaN" and s: "sorted_wrt float_le xs" and n: "NaN \<notin> set xs"
    and le: "\<forall>y \<in> set xs. float_le a y"
    by auto
  show ?case
  proof (cases "xs = []")
    case True
    with Cons.prems a show ?thesis by (simp add: float_le_refl)
  next
    case False
    then have l: "last xs \<in> set xs" by simp
    show ?thesis
    proof (cases "x = a")
      case True
      with a le l False show ?thesis by (simp add: float_le_refl)
    next
      case neq: False
      with Cons.prems have "x \<in> set xs" by simp
      with Cons.IH [OF s n] le False show ?thesis by simp
    qed
  qed
qed

lemma sort_ok_set: "sort_ok py \<Longrightarrow> set (list_sort py xs) = set xs"
  unfolding sort_ok_def by (metis set_mset_mset)

lemma sort_ok_length: "sort_ok py \<Longrightarrow> length (list_sort py xs) = length xs"
  unfolding sort_ok_def by (metis size_mset)

lemma sort_ok_Nil: "sort_ok py \<Longrightarrow> list_sort py xs = [] \<longleftrightarrow> xs = []"
  using sort_ok_length [of py xs] by auto

lemma sort_ok_single: "sort_ok py \<Longrightarrow> list_sort py [x] = [x]"
  using sort_ok_set [of py "[x]"] sort_ok_length [of py "[x]"]
  by (cases "list_sort py [x]") auto

lemma sort_ok_bounds:
  assumes "sort_ok py" "NaN \<notin> set xs" "x \<in> set xs"
  shows "float_le (hd (list_sort py xs)) x \<and> float_le x (last (list_sort py xs))"
proof -
  from assms(1,2) have "sorted_wrt float_le (list_sort py xs)" by (simp add: sort_ok_def)
  moreover have "NaN \<notin> set (list_sort py xs)" "x \<in> set (list_sort py xs)"
    using assms by (simp_all add: sort_ok_set)
  ultimately show ?thesis by (rule sorted_hd_last)
qed

lemma scalar_price_ok:
  "price_ok \<lparr>service = s, cost = Scalar c, min_price = c, max_price = c, count = n\<rparr>"
  by (simp add: price_ok_def nan_free_def price_invariant_def float_eq_def)

lemma sorted_price_ok:
  assumes "sort_ok py"
  shows "price_ok \<lparr>service = s, cost = Prices (list_sort py ps),
                   min_price = hd (list_sort py ps), max_price = last (list_sort py ps),
                   count = n\<rparr>"
proof -
  have "float_le (hd (list_sort py ps)) p \<and> float_le p (last (list_sort py ps))"
    if "NaN \<notin> set ps" "p \<in> set ps" for p
    using sort_ok_bounds [OF assms that] .
  then show ?thesis
    using sort_ok_set [OF assms, of ps]
    by (simp add: price_ok_def nan_free_def price_invariant_def list_all_iff)
qed

lemma price_fields_ok:
  assumes "sort_ok py" "price_fields py base_cost fpm = Inr (c, min_p, max_p)"
  shows "price_ok \<lparr>service = s, cost = c, min_price = min_p, max_price = max_p, count = n\<rparr>"
proof -
  consider "c = Scalar base_cost \<and> min_p = base_cost \<and> max_p = base_cost"
    | ps where "c = Prices (list_sort py ps) \<and> min_p = hd (list_sort py ps)
                  \<and> max_p = last (list_sort py ps)"
    using assms(2)
    by (auto simp: price_fields_def Let_def split: json.splits if_splits sum.splits)
  then show ?thesis
  proof cases
    case 1
    then show ?thesis by (simp add: scalar_price_ok)
  next
    case 2
    then show ?thesis by (simp add: sorted_price_ok [OF assms(1)])
  qed
qed

lemma standard_service_ok:
  "sort_ok py \<Longrightarrow> standard_service py srv_code d = Inr sp \<Longrightarrow> price_ok sp"
  by (auto simp: standard_service_def price_fields_ok split: sum.splits)

lemma services_ok_update:
  "services_ok service_map \<Longrightarrow> price_ok sp \<Longrightarrow> services_ok (AList.update k sp service_map)"
  by (induction service_map) (auto simp: services_ok_def)

lemma standard_services_ok:
  "sort_ok py \<Longrightarrow> standard_services py kvs service_map = Inr result \<Longrightarrow>
     services_ok service_map \<Longrightarrow> services_ok result"
proof (induction py kvs service_map rule: standard_services.induct)
  case (2 py srv_code srv_data rest service_map)
  then show ?case
    by (auto split: sum.splits intro: services_ok_update standard_service_ok)
qed auto

lemma standard_countries_ok:
  "sort_ok py \<Longrightarrow> standard_countries py kvs acc = Inr result \<Longrightarrow> prices_ok acc \<Longrightarrow>
     prices_ok result"
proof (induction py kvs acc rule: standard_countries.induct)
  case (2 py cid srvs rest result')
  from "2.prems"(2) obtain service_map where
    sm: "standard_services py srvs [] = Inr service_map"
    by (cases "standard_services py srvs []") simp_all
  then have ok: "services_ok service_map"
    using standard_services_ok [OF "2.prems"(1), of srvs "[]" service_map]
    by (simp add: services_ok_def)
  show ?case
  proof (cases "service_map \<noteq> []")
    case True
    with "2.prems"(2) sm obtain c where c: "int_str py cid = Some c"
      and r: "standard_countries py rest (result' @ [\<lparr>country_id = c, services = service_map\<rparr>]) = Inr result"
      by (cases "int_str py cid") simp_all
    have "prices_ok (result' @ [\<lparr>country_id = c, services = service_map\<rparr>])"
      using "2.prems"(3) ok by (simp add: prices_ok_def)
    with "2.IH"(1) [OF sm True c "2.prems"(1) r] show ?thesis .
  next
    case False
    with "2.prems" sm "2.IH"(2) [OF sm] show ?thesis by simp
  qed
qed auto

lemma standard_prices_ok:
  assumes "sort_ok py" "standard_prices py data = Inr result"
  shows "prices_ok result"
proof -
  have e: "prices_ok []" by (simp add: prices_ok_def)
  have c: "(\<exists>d. standard_countries py d [] = Inr result) \<or> result = []"
  proof (cases data)
    case (JList xs)
    show ?thesis
    proof (cases xs)
      case Nil
      with JList assms(2) show ?thesis by (simp add: standard_prices_def)
    next
      case (Cons y ys)
      with JList assms(2) show ?thesis by (cases y) (auto simp: standard_prices_def)
    qed
  qed (use assms(2) in \<open>auto simp: standard_prices_def\<close>)
  then show ?thesis
    using standard_countries_ok [OF assms(1)] e by auto
qed

lemma country_map_ok_entry:
  "country_map_ok cm \<Longrightarrow> price_ok sp \<Longrightarrow>
     country_map_ok (AList.map_entry c (AList.update k sp) cm)"
  by (induction cm) (auto simp: country_map_ok_def services_ok_update)

lemma country_map_ok_new:
  "country_map_ok cm \<Longrightarrow> country_map_ok (cm @ [(c, [])])"
  by (simp add: country_map_ok_def services_ok_def)

lemma process_entry_ok:
  assumes "sort_ok py" "process_entry py srv_code entry cm = Inr cm'" "country_map_ok cm"
  shows "country_map_ok cm'"
proof -
  from assms(2) obtain d where d: "entry = JObject d" by (cases entry) (auto simp: process_entry_def)
  show ?thesis
  proof (cases "dict_get d ''country'' JNull = JNull")
    case True
    with assms d show ?thesis by (simp add: process_entry_def)
  next
    case False
    let ?cm = "\<lambda>c_id. if map_of cm c_id = None then cm @ [(c_id, [])] else cm"
    from assms(2) d False obtain c_id base_cost c min_p max_p n where
      pf: "price_fields py base_cost (dict_get d ''freePriceMap'' JNull) = Inr (c, min_p, max_p)"
      and r: "cm' = AList.map_entry c_id
                (AList.update srv_code
                   \<lparr>service = srv_code, cost = c, min_price = min_p, max_price = max_p, count = n\<rparr>)
                (?cm c_id)"
      by (auto simp: process_entry_def Let_def split: sum.splits)
    have "country_map_ok (?cm c_id)" using assms(3) by (simp add: country_map_ok_new)
    with price_fields_ok [OF assms(1) pf] r show ?thesis by (simp add: country_map_ok_entry)
  qed
qed

lemma process_entries_ok:
  "sort_ok py \<Longrightarrow> process_entries py guard srv_code xs cm = Inr cm' \<Longrightarrow> country_map_ok cm \<Longrightarrow>
     country_map_ok cm'"
proof (induction xs arbitrary: cm)
  case Nil
  then show ?case by simp
next
  case (Cons x xs)
  then show ?case
    by (auto split: if_splits sum.splits dest: process_entry_ok)
qed

lemma process_collection_ok:
  "sort_ok py \<Longrightarrow> process_collection py guard srv_code entries cm = Inr cm' \<Longrightarrow>
     country_map_ok cm \<Longrightarrow> country_map_ok cm'"
  by (auto simp: process_collection_def split: json.splits dest: process_entries_ok)

lemma process_items_ok:
  "sort_ok py \<Longrightarrow> process_items py kvs cm = Inr cm' \<Longrightarrow> country_map_ok cm \<Longrightarrow>
     country_map_ok cm'"
proof (induction kvs arbitrary: cm)
  case Nil
  then show ?case by simp
next
  case (Cons kv kvs)
  obtain k v where "kv = (k, v)" by (cases kv)
  with Cons show ?case
    by (auto split: sum.splits dest: process_collection_ok)
qed

lemma process_list_ok:
  "sort_ok py \<Longrightarrow> process_list py xs cm = Inr cm' \<Longrightarrow> country_map_ok cm \<Longrightarrow>
     country_map_ok cm'"
proof (induction py xs cm rule: process_list.induct)
  case (2 py kvs rest country_map)
  then show ?case by (auto split: sum.splits dest: process_items_ok)
qed auto

lemma top_countries_ok:
  assumes "sort_ok py" "top_countries py srv data = Inr result"
  shows "prices_ok result"
proof -
  have e: "country_map_ok []" by (simp add: country_map_ok_def)
  from assms(2) obtain cm where
    r: "result = map (\<lambda>(cid, srvs). \<lparr>country_id = cid, services = srvs\<rparr>) cm"
    and c: "(\<exists>entries. process_collection py True (the srv) entries [] = Inr cm)
            \<or> (\<exists>items. process_list py items [] = Inr cm)
            \<or> (\<exists>d. process_items py d [] = Inr cm) \<or> cm = []"
    by (auto simp: top_countries_def Let_def split: sum.splits if_splits json.splits)
  from c e have "country_map_ok cm"
    using process_collection_ok [OF assms(1)] process_list_ok [OF assms(1)]
      process_items_ok [OF assms(1)] by blast
  with r show ?thesis
    by (simp add: prices_ok_def country_map_ok_def list_all_iff case_prod_unfold)
qed

lemma complex_service_ok:
  assumes "sort_ok py" "complex_service py version srv_code srv_data = Inr (Some sp)"
  shows "price_ok sp"
proof -
  from assms(2) obtain ps n where ne: "list_sort py ps \<noteq> []"
    and sp: "sp = \<lparr>service = srv_code,
                   cost = (if length (list_sort py ps) > 1 then Prices (list_sort py ps)
                           else Scalar (hd (list_sort py ps))),
                   min_price = hd (list_sort py ps), max_price = last (list_sort py ps),
                   count = n\<rparr>"
    by (auto simp: complex_service_def Let_def split: json.splits sum.splits if_splits)
  show ?thesis
  proof (cases "length (list_sort py ps) > 1")
    case True
    with sp show ?thesis by (simp add: sorted_price_ok [OF assms(1)])
  next
    case False
    moreover from ne have "length (list_sort py ps) \<noteq> 0" by simp
    ultimately have "length (list_sort py ps) = 1" by linarith
    then obtain a where "list_sort py ps = [a]"
      by (cases "list_sort py ps") auto
    with sp show ?thesis by (simp add: scalar_price_ok)
  qed
qed

lemma complex_services_ok:
  "sort_ok py \<Longrightarrow> complex_services py version kvs service_map = Inr result \<Longrightarrow>
     services_ok service_map \<Longrightarrow> services_ok result"
proof (induction py version kvs service_map rule: complex_services.induct)
  case (2 py version srv_code srv_data rest service_map)
  then show ?case
    by (auto split: sum.splits option.splits intro: services_ok_update complex_service_ok)
qed auto

lemma complex_countries_ok:
  "sort_ok py \<Longrightarrow> complex_countries py version kvs acc = Inr result \<Longrightarrow> prices_ok acc \<Longrightarrow>
     prices_ok result"
proof (induction py version kvs acc rule: complex_countries.induct)
  case (2 py version cid srvs rest result')
  from "2.prems"(2) obtain service_map where
    sm: "complex_services py version srvs [] = Inr service_map"
    by (cases "complex_services py version srvs []") simp_all
  then have ok: "services_ok service_map"
    using complex_services_ok [OF "2.prems"(1), of version srvs "[]" service_map]
    by (simp add: services_ok_def)
  show ?case
  proof (cases "service_map \<noteq> []")
    case True
    with "2.prems"(2) sm obtain c where c: "int_str py cid = Some c"
      and r: "complex_countries py version rest (result' @ [\<lparr>country_id = c, services = service_map\<rparr>]) = Inr result"
      by (cases "int_str py cid") simp_all
    have "prices_ok (result' @ [\<lparr>country_id = c, services = service_map\<rparr>])"
      using "2.prems"(3) ok by (simp add: prices_ok_def)
    with "2.IH"(1) [OF sm True c "2.prems"(1) r] show ?thesis .
  next
    case False
    with "2.prems" sm "2.IH"(2) [OF sm] show ?thesis by simp
  qed
qed auto

lemma parse_complex_prices_ok:
  "sort_ok py \<Longrightarrow> parse_complex_prices py data version = Inr result \<Longrightarrow> prices_ok result"
  using complex_countries_ok [of py version _ "[]" result]
  by (auto simp: parse_complex_prices_def prices_ok_def split: json.splits)

text \<open>The insertion sort of the concrete runs is a sort in the sense of \<open>sort_ok\<close>.\<close>

lemma mset_insert_lt: "mset (insert_lt x ys) = add_mset x (mset ys)"
  by (induction ys) auto

lemma set_insert_lt: "set (insert_lt x ys) = insert x (set ys)"
  using mset_insert_lt [of x ys] by (metis set_mset_add_mset_insert set_mset_mset)

lemma sorted_insert_lt:
  "sorted_wrt float_le ys \<Longrightarrow> x \<noteq> NaN \<Longrightarrow> NaN \<notin> set ys \<Longrightarrow>
     sorted_wrt float_le (insert_lt x ys)"
proof (induction ys)
  case Nil
  then show ?case by simp
next
  case (Cons y ys)
  show ?case
  proof (cases "float_lt y x")
    case True
    with Cons show ?thesis by (auto simp: set_insert_lt float_lt_le)
  next
    case False
    from Cons.prems have "y \<noteq> NaN" by auto
    with False Cons.prems(2) have xy: "float_le x y" by (simp add: float_le_total)
    have "float_le x z" if "z \<in> set ys" for z
      using Cons.prems(1) xy that float_le_trans [of x y z] by auto
    with False xy Cons.prems(1) show ?thesis by auto
  qed
qed

lemma insertion_sort_ok: "sort_ok test_builtins"
proof -
  have m: "mset (insertion_sort xs) = mset xs" for xs
    unfolding insertion_sort_def by (induction xs) (simp_all add: mset_insert_lt)
  have s: "NaN \<notin> set xs \<Longrightarrow> sorted_wrt float_le (insertion_sort xs)" for xs
  proof (induction xs)
    case Nil
    then show ?case by (simp add: insertion_sort_def)
  next
    case (Cons x xs)
    then have "sorted_wrt float_le (foldr insert_lt xs [])" "x \<noteq> NaN"
      "NaN \<notin> set (foldr insert_lt xs [])"
      using m [of xs] by (auto simp: insertion_sort_def dest: mset_eq_setD)
    then show ?case by (simp add: insertion_sort_def sorted_insert_lt)
  qed
  from m s show ?thesis by (simp add: sort_ok_def test_builtins_def)
qed

text \<open>
  Claim C8, as the code has it. With a \<open>list.sort()\<close> that sorts the lists free of
  NaN, every list of country prices that a price operation returns (the standard
  \<open>getPrices\<close>, \<open>getTopCountriesByService\<close> and its HeroSMS filter, and the
  SMSBower v2 and v3 operations with their parser) satisfies the invariant in every
  service price whose cost holds no NaN: minimum and maximum bound every value of the
  cost, and a scalar cost equals both, all in Python's comparisons.
\<close>

theorem price_invariant_every_parser:
  assumes "sort_ok py"
  shows "(get_prices py self srv country free_price w = (Inr result, w') \<longrightarrow> prices_ok result)
   \<and> (get_top_countries_by_service py self srv free_price w = (Inr result, w') \<longrightarrow> prices_ok result)
   \<and> (herosms_get_prices py self srv country free_price w = (Inr result, w') \<longrightarrow> prices_ok result)
   \<and> (get_prices_v2 py self srv country w = (Inr result, w') \<longrightarrow> prices_ok result)
   \<and> (get_prices_v3 py self srv country w = (Inr result, w') \<longrightarrow> prices_ok result)
   \<and> (smsbower_get_prices py self srv country free_price w = (Inr result, w') \<longrightarrow> prices_ok result)
   \<and> (parse_complex_prices py data version = Inr result \<longrightarrow> prices_ok result)
   \<and> (prices_ok result \<longleftrightarrow>
        (\<forall>cp \<in> set result. \<forall>(k, sp) \<in> set (services cp).
           (\<forall>c. cost sp = Scalar c \<and> c \<noteq> NaN \<longrightarrow>
                float_eq (min_price sp) c \<and> float_eq (max_price sp) c)
         \<and> (\<forall>ps. cost sp = Prices ps \<and> NaN \<notin> set ps \<longrightarrow>
                (\<forall>p \<in> set ps. float_le (min_price sp) p \<and> float_le p (max_price sp)))))"
proof -
  note so = assms
  have 1: "get_prices py self srv country free_price w = (Inr result, w') \<longrightarrow> prices_ok result"
    by (auto simp: get_prices_def split: prod.splits sum.splits option.splits
        dest: standard_prices_ok [OF so])
  have 2: "get_top_countries_by_service py self s f w = (Inr r, w') \<longrightarrow> prices_ok r" for s f r
    by (auto simp: get_top_countries_by_service_def split: prod.splits sum.splits option.splits
        dest: top_countries_ok [OF so])
  have 3: "herosms_get_prices py self srv country free_price w = (Inr result, w') \<longrightarrow> prices_ok result"
  proof
    assume h: "herosms_get_prices py self srv country free_price w = (Inr result, w')"
    then obtain results where g: "get_top_countries_by_service py self srv free_price w = (Inr results, w')"
      and r: "result = results \<or> (\<exists>c. result = filter (\<lambda>r. country_id r = c) results)"
      by (auto simp: herosms_get_prices_def split: prod.splits sum.splits option.splits)
    from 2 g have "prices_ok results" by blast
    with r show "prices_ok result" by (auto simp: prices_ok_def list_all_iff)
  qed
  have 4: "get_prices_v2 py self s c w = (Inr r, w') \<longrightarrow> prices_ok r" for s c r
    by (auto simp: get_prices_v2_def split: prod.splits sum.splits option.splits
        dest: parse_complex_prices_ok [OF so])
  have 5: "get_prices_v3 py self srv country w = (Inr result, w') \<longrightarrow> prices_ok result"
    by (auto simp: get_prices_v3_def split: prod.splits sum.splits option.splits
        dest: parse_complex_prices_ok [OF so])
  have 6: "smsbower_get_prices py self srv country free_price w = (Inr result, w') \<longrightarrow> prices_ok result"
    using 4 by (simp add: smsbower_get_prices_def)
  have 7: "parse_complex_prices py data version = Inr result \<longrightarrow> prices_ok result"
    using parse_complex_prices_ok [OF so] by blast
  have 8: "prices_ok result \<longleftrightarrow>
        (\<forall>cp \<in> set result. \<forall>(k, sp) \<in> set (services cp).
           (\<forall>c. cost sp = Scalar c \<and> c \<noteq> NaN \<longrightarrow>
                float_eq (min_price sp) c \<and> float_eq (max_price sp) c)
         \<and> (\<forall>ps. cost sp = Prices ps \<and> NaN \<notin> set ps \<longrightarrow>
                (\<forall>p \<in> set ps. float_le (min_price sp) p \<and> float_le p (max_price sp))))"
  proof -
    have sp: "price_ok sp \<longleftrightarrow>
        (\<forall>c. cost sp = Scalar c \<and> c \<noteq> NaN \<longrightarrow>
                float_eq (min_price sp) c \<and> float_eq (max_price sp) c)
         \<and> (\<forall>ps. cost sp = Prices ps \<and> NaN \<notin> set ps \<longrightarrow>
                (\<forall>p \<in> set ps. float_le (min_price sp) p \<and> float_le p (max_price sp)))" for sp
      by (cases "cost sp") (auto simp: price_ok_def nan_free_def price_invariant_def list_all_iff)
    show ?thesis
      unfolding prices_ok_def services_ok_def list_all_iff sp by (simp add: case_prod_unfold)
  qed
  from 1 2 3 4 5 6 7 8 show ?thesis by blast
qed

lemmas fixture_defs = test_builtins_def decimal_float_def decimal_int_def digit_val_def
  small_float_int_def insertion_sort_def

theorem price_invariant_every_parser_witness:
  "get_prices_v2 test_builtins test_client (Some ''tg'') None
     \<lparr>script = [Response 200 payload_v2], sent = []\<rparr> =
   (Inr [\<lparr>country_id = 0,
           services = [(''tg'', \<lparr>service = ''tg'', cost = Prices [Finite 10.5, Finite 15],
                                 min_price = Finite 10.5, max_price = Finite 15, count = 150\<rparr>)]\<rparr>],
    \<lparr>script = [],
     sent = [(''https://smshub.org/stubs/handler_api.php'',
              [(''api_key'', PStr ''test_key''), (''action'', PStr ''getPricesV2''),
               (''service'', PStr ''tg'')])]\<rparr>)
   \<and> prices_ok [\<lparr>country_id = 0,
           services = [(''tg'', \<lparr>service = ''tg'', cost = Prices [Finite 10.5, Finite 15],
                                 min_price = Finite 10.5, max_price = Finite 15, count = 150\<rparr>)]\<rparr>]
   \<and> get_prices test_builtins test_client (Some ''tg'') None None
     \<lparr>script = [Response 200 payload_standard], sent = []\<rparr> =
   (Inr [\<lparr>country_id = 0,
           services = [(''tg'', \<lparr>service = ''tg'', cost = Scalar (Finite 10.5),
                                 min_price = Finite 10.5, max_price = Finite 10.5, count = 100\<rparr>)]\<rparr>],
    \<lparr>script = [],
     sent = [(''https://smshub.org/stubs/handler_api.php'',
              [(''api_key'', PStr ''test_key''), (''action'', PStr ''getPrices''),
               (''service'', PStr ''tg'')])]\<rparr>)
   \<and> prices_ok [\<lparr>country_id = 0,
           services = [(''tg'', \<lparr>service = ''tg'', cost = Scalar (Finite 10.5),
                                 min_price = Finite 10.5, max_price = Finite 10.5, count = 100\<rparr>)]\<rparr>]"
proof -
  have j2: "json_loads test_builtins payload_v2 =
      Some (JObject [(''0'', JObject [(''tg'', JObject [(''10.5'', JInt 100), (''15.0'', JInt 50)])])])"
    by (simp add: test_builtins_def payloads_def payload_v2_def payload_standard_def)
  have j1: "json_loads test_builtins payload_standard =
      Some (JObject [(''0'', JObject [(''tg'', JObject
              [(''cost'', JFloat (Finite 10.5)), (''count'', JInt 100)])])])"
    by (simp add: test_builtins_def payloads_def)
  have c: "int_str test_builtins ''0'' = Some 0"
    by (simp add: fixture_defs)
  have f: "float_str test_builtins ''10.5'' = Some (Finite 10.5)"
    "float_str test_builtins ''15.0'' = Some (Finite 15)"
    by (simp_all add: fixture_defs)
  have st: "list_sort test_builtins [Finite (21 / 2), Finite 15] = [Finite (21 / 2), Finite 15]"
    by (simp add: fixture_defs)
  have r2: "request test_client ''getPricesV2'' (complex_prices_params (Some ''tg'') None)
              \<lparr>script = [Response 200 payload_v2], sent = []\<rparr> =
            (Inr payload_v2, \<lparr>script = [],
     sent = [(''https://smshub.org/stubs/handler_api.php'',
              [(''api_key'', PStr ''test_key''), (''action'', PStr ''getPricesV2''),
               (''service'', PStr ''tg'')])]\<rparr>)"
    by (simp add: run_defs complex_prices_params_def payload_v2_def)
  have r1: "request test_client ''getPrices'' (get_prices_params (Some ''tg'') None None)
              \<lparr>script = [Response 200 payload_standard], sent = []\<rparr> =
            (Inr payload_standard, \<lparr>script = [],
     sent = [(''https://smshub.org/stubs/handler_api.php'',
              [(''api_key'', PStr ''test_key''), (''action'', PStr ''getPrices''),
               (''service'', PStr ''tg'')])]\<rparr>)"
    by (simp add: run_defs get_prices_params_def payload_standard_def)
  have run2: "get_prices_v2 test_builtins test_client (Some ''tg'') None
     \<lparr>script = [Response 200 payload_v2], sent = []\<rparr> =
   (Inr [\<lparr>country_id = 0,
           services = [(''tg'', \<lparr>service = ''tg'', cost = Prices [Finite 10.5, Finite 15],
                                 min_price = Finite 10.5, max_price = Finite 15, count = 150\<rparr>)]\<rparr>],
    \<lparr>script = [],
     sent = [(''https://smshub.org/stubs/handler_api.php'',
              [(''api_key'', PStr ''test_key''), (''action'', PStr ''getPricesV2''),
               (''service'', PStr ''tg'')])]\<rparr>)"
    by (simp add: get_prices_v2_def r2 j2 c f st parse_complex_prices_def complex_service_def
        Let_def)
  have run1: "get_prices test_builtins test_client (Some ''tg'') None None
     \<lparr>script = [Response 200 payload_standard], sent = []\<rparr> =
   (Inr [\<lparr>country_id = 0,
           services = [(''tg'', \<lparr>service = ''tg'', cost = Scalar (Finite 10.5),
                                 min_price = Finite 10.5, max_price = Finite 10.5, count = 100\<rparr>)]\<rparr>],
    \<lparr>script = [],
     sent = [(''https://smshub.org/stubs/handler_api.php'',
              [(''api_key'', PStr ''test_key''), (''action'', PStr ''getPrices''),
               (''service'', PStr ''tg'')])]\<rparr>)"
    by (simp add: get_prices_def r1 j1 c standard_prices_def standard_service_def dict_get_def
        py_or_def price_fields_def)
  have ok2: "prices_ok [\<lparr>country_id = 0,
           services = [(''tg'', \<lparr>service = ''tg'', cost = Prices [Finite 10.5, Finite 15],
                                 min_price = Finite 10.5, max_price = Finite 15, count = 150\<rparr>)]\<rparr>]"
    using price_invariant_every_parser
      [OF insertion_sort_ok, where self = test_client and srv = "Some ''tg''" and country = None
         and w = "\<lparr>script = [Response 200 payload_v2], sent = []\<rparr>"] run2
    by blast
  have ok1: "prices_ok [\<lparr>country_id = 0,
           services = [(''tg'', \<lparr>service = ''tg'', cost = Scalar (Finite 10.5),
                                 min_price = Finite 10.5, max_price = Finite 10.5, count = 100\<rparr>)]\<rparr>]"
    using price_invariant_every_parser
      [OF insertion_sort_ok, where self = test_client and srv = "Some ''tg''" and country = None
         and free_price = None
         and w = "\<lparr>script = [Response 200 payload_standard], sent = []\<rparr>"] run1
    by blast
  from run2 ok2 run1 ok1 show ?thesis by blast
qed

text \<open>
  The claim has the invariant hold for every value produced. \<open>float("nan")\<close> is a
  float, and \<open>list.sort()\<close> leaves the list \<open>[2.0, nan, 1.0]\<close> as it is, every
  comparison with NaN being false: for the v2 payload with the price keys \<open>2.0\<close>,
  \<open>nan\<close> and \<open>1.0\<close> the minimum is 2.0 and the maximum 1.0.
\<close>

theorem nan_breaks_invariant_counterexample:
  "get_prices_v2 test_builtins test_client (Some ''tg'') None
     \<lparr>script = [Response 200 payload_v2_nan], sent = []\<rparr> =
   (Inr [\<lparr>country_id = 0,
           services = [(''tg'', \<lparr>service = ''tg'', cost = Prices [Finite 2, NaN, Finite 1],
                                 min_price = Finite 2, max_price = Finite 1, count = 3\<rparr>)]\<rparr>],
    \<lparr>script = [],
     sent = [(''https://smshub.org/stubs/handler_api.php'',
              [(''api_key'', PStr ''test_key''), (''action'', PStr ''getPricesV2''),
               (''service'', PStr ''tg'')])]\<rparr>)
   \<and> \<not> price_invariant \<lparr>service = ''tg'', cost = Prices [Finite 2, NaN, Finite 1],
                          min_price = Finite 2, max_price = Finite 1, count = 3\<rparr>
   \<and> float_lt (Finite 1) (Finite 2)"
proof -
  have j: "json_loads test_builtins payload_v2_nan = Some json_v2_nan"
    by (simp add: test_builtins_def payloads_def payload_v2_nan_def payload_v2_def
        payload_standard_def payload_v2_same_price_def)
  have r: "request test_client ''getPricesV2'' (complex_prices_params (Some ''tg'') None)
              \<lparr>script = [Response 200 payload_v2_nan], sent = []\<rparr> =
            (Inr payload_v2_nan, \<lparr>script = [],
     sent = [(''https://smshub.org/stubs/handler_api.php'',
              [(''api_key'', PStr ''test_key''), (''action'', PStr ''getPricesV2''),
               (''service'', PStr ''tg'')])]\<rparr>)"
    by (simp add: run_defs complex_prices_params_def payload_v2_nan_def)
  have c: "int_str test_builtins ''0'' = Some 0"
    by (simp add: fixture_defs)
  have f: "float_str test_builtins ''2.0'' = Some (Finite 2)"
    "float_str test_builtins ''nan'' = Some NaN"
    "float_str test_builtins ''1.0'' = Some (Finite 1)"
    by (simp_all add: fixture_defs)
  have st: "list_sort test_builtins [Finite 2, NaN, Finite 1] = [Finite 2, NaN, Finite 1]"
    by (simp add: fixture_defs)
  have run: "get_prices_v2 test_builtins test_client (Some ''tg'') None
     \<lparr>script = [Response 200 payload_v2_nan], sent = []\<rparr> =
   (Inr [\<lparr>country_id = 0,
           services = [(''tg'', \<lparr>service = ''tg'', cost = Prices [Finite 2, NaN, Finite 1],
                                 min_price = Finite 2, max_price = Finite 1, count = 3\<rparr>)]\<rparr>],
    \<lparr>script = [],
     sent = [(''https://smshub.org/stubs/handler_api.php'',
              [(''api_key'', PStr ''test_key''), (''action'', PStr ''getPricesV2''),
               (''service'', PStr ''tg'')])]\<rparr>)"
    by (simp add: get_prices_v2_def r j c f st json_v2_nan_def parse_complex_prices_def
        complex_service_def Let_def)
  have "\<not> price_invariant \<lparr>service = ''tg'', cost = Prices [Finite 2, NaN, Finite 1],
                          min_price = Finite 2, max_price = Finite 1, count = 3\<rparr>"
    by (simp add: price_invariant_def float_le_def float_eq_def)
  with run show ?thesis by simp
qed

section \<open>The prices SMSBower derives\<close>

lemma collect_v2_sound:
  "collect_v2 py d ps0 n0 = Inr (ps, n) \<Longrightarrow>
     \<exists>pcs. list_all2 (\<lambda>(price_str, cnt) (p, m).
                float_str py price_str = Some p \<and> py_int py cnt = Inr m) d pcs
       \<and> ps = ps0 @ map fst pcs \<and> n = n0 + sum_list (map snd pcs)"
proof (induction d arbitrary: ps0 n0)
  case Nil
  then show ?case by simp
next
  case (Cons kv d)
  obtain k c where kv: "kv = (k, c)" by (cases kv)
  from Cons.prems kv obtain p m where
    f: "float_str py k = Some p" and i: "py_int py c = Inr m"
    and rest: "collect_v2 py d (ps0 @ [p]) (n0 + m) = Inr (ps, n)"
    by (auto split: option.splits sum.splits)
  from Cons.IH [OF rest] obtain pcs where
    a: "list_all2 (\<lambda>(price_str, cnt) (p, m).
          float_str py price_str = Some p \<and> py_int py cnt = Inr m) d pcs"
    and b: "ps = (ps0 @ [p]) @ map fst pcs" and c: "n = (n0 + m) + sum_list (map snd pcs)"
    by blast
  have "list_all2 (\<lambda>(price_str, cnt) (p, m).
          float_str py price_str = Some p \<and> py_int py cnt = Inr m) (kv # d) ((p, m) # pcs)"
    using a f i kv by simp
  moreover have "ps = ps0 @ map fst ((p, m) # pcs)" using b by simp
  moreover have "n = n0 + sum_list (map snd ((p, m) # pcs))" using c by simp
  ultimately show ?case by blast
qed

lemma collect_v2_complete:
  "list_all2 (\<lambda>(price_str, cnt) (p, m).
      float_str py price_str = Some p \<and> py_int py cnt = Inr m) d pcs \<Longrightarrow>
   collect_v2 py d ps0 n0 = Inr (ps0 @ map fst pcs, n0 + sum_list (map snd pcs))"
proof (induction d arbitrary: pcs ps0 n0)
  case Nil
  then show ?case by simp
next
  case (Cons kv d)
  then obtain pc pcs' where pcs: "pcs = pc # pcs'"
    and h: "(\<lambda>(price_str, cnt) (p, m).
               float_str py price_str = Some p \<and> py_int py cnt = Inr m) kv pc"
    and t: "list_all2 (\<lambda>(price_str, cnt) (p, m).
               float_str py price_str = Some p \<and> py_int py cnt = Inr m) d pcs'"
    by (auto simp: list_all2_Cons1)
  obtain k c p m where kv: "kv = (k, c)" and pc: "pc = (p, m)" by (cases kv; cases pc) auto
  from h kv pc have "float_str py k = Some p" "py_int py c = Inr m" by auto
  with Cons.IH [OF t, of "ps0 @ [p]" "n0 + m"] kv pc pcs show ?case by simp
qed

lemma collect_v3_sound:
  "collect_v3 py (map snd d) ps0 n0 = Inr (ps, n) \<Longrightarrow>
     \<exists>pcs. list_all2 (\<lambda>(provider_id, provider_data) (p, m).
                \<exists>pd. provider_data = JObject pd
                  \<and> py_float py (dict_get pd ''price'' (JInt 0)) = Inr p
                  \<and> py_int py (dict_get pd ''count'' (JInt 0)) = Inr m) d pcs
       \<and> ps = ps0 @ map fst pcs \<and> n = n0 + sum_list (map snd pcs)"
proof (induction d arbitrary: ps0 n0)
  case Nil
  then show ?case by simp
next
  case (Cons kv d)
  obtain k x where kv: "kv = (k, x)" by (cases kv)
  from Cons.prems kv obtain pd where x: "x = JObject pd"
    by (cases x) auto
  from Cons.prems kv x obtain p m where
    f: "py_float py (dict_get pd ''price'' (JInt 0)) = Inr p"
    and i: "py_int py (dict_get pd ''count'' (JInt 0)) = Inr m"
    and rest: "collect_v3 py (map snd d) (ps0 @ [p]) (n0 + m) = Inr (ps, n)"
    by (auto split: sum.splits)
  from Cons.IH [OF rest] obtain pcs where
    a: "list_all2 (\<lambda>(provider_id, provider_data) (p, m).
                \<exists>pd. provider_data = JObject pd
                  \<and> py_float py (dict_get pd ''price'' (JInt 0)) = Inr p
                  \<and> py_int py (dict_get pd ''count'' (JInt 0)) = Inr m) d pcs"
    and b: "ps = (ps0 @ [p]) @ map fst pcs" and c: "n = (n0 + m) + sum_list (map snd pcs)"
    by blast
  have "list_all2 (\<lambda>(provider_id, provider_data) (p, m).
                \<exists>pd. provider_data = JObject pd
                  \<and> py_float py (dict_get pd ''price'' (JInt 0)) = Inr p
                  \<and> py_int py (dict_get pd ''count'' (JInt 0)) = Inr m) (kv # d) ((p, m) # pcs)"
    using a f i kv x by simp
  moreover have "ps = ps0 @ map fst ((p, m) # pcs)" using b by simp
  moreover have "n = n0 + sum_list (map snd ((p, m) # pcs))" using c by simp
  ultimately show ?case by blast
qed

lemma collect_v3_complete:
  "list_all2 (\<lambda>(provider_id, provider_data) (p, m).
      \<exists>pd. provider_data = JObject pd
        \<and> py_float py (dict_get pd ''price'' (JInt 0)) = Inr p
        \<and> py_int py (dict_get pd ''count'' (JInt 0)) = Inr m) d pcs \<Longrightarrow>
   collect_v3 py (map snd d) ps0 n0 = Inr (ps0 @ map fst pcs, n0 + sum_list (map snd pcs))"
proof (induction d arbitrary: pcs ps0 n0)
  case Nil
  then show ?case by simp
next
  case (Cons kv d)
  then obtain pc pcs' where pcs: "pcs = pc # pcs'"
    and h: "(\<lambda>(provider_id, provider_data) (p, m).
               \<exists>pd. provider_data = JObject pd
                 \<and> py_float py (dict_get pd ''price'' (JInt 0)) = Inr p
                 \<and> py_int py (dict_get pd ''count'' (JInt 0)) = Inr m) kv pc"
    and t: "list_all2 (\<lambda>(provider_id, provider_data) (p, m).
               \<exists>pd. provider_data = JObject pd
                 \<and> py_float py (dict_get pd ''price'' (JInt 0)) = Inr p
                 \<and> py_int py (dict_get pd ''count'' (JInt 0)) = Inr m) d pcs'"
    by (auto simp: list_all2_Cons1)
  obtain k x p m where kv: "kv = (k, x)" and pc: "pc = (p, m)" by (cases kv; cases pc) auto
  from h kv pc obtain pd where "x = JObject pd"
    "py_float py (dict_get pd ''price'' (JInt 0)) = Inr p"
    "py_int py (dict_get pd ''count'' (JInt 0)) = Inr m"
    by auto
  with Cons.IH [OF t, of "ps0 @ [p]" "n0 + m"] kv pc pcs show ?case by simp
qed

text \<open>The loop of one service collects exactly what \<open>price_reads\<close> relates.\<close>

lemma collect_iff:
  "(if version = ''v2'' then collect_v2 py d [] 0 else collect_v3 py (map snd d) [] 0) = Inr (ps, n)
     \<longleftrightarrow> (\<exists>pcs. price_reads py version d pcs \<and> ps = map fst pcs \<and> n = sum_list (map snd pcs))"
proof (cases "version = ''v2''")
  case True
  then show ?thesis
    using collect_v2_sound [of py d "[]" 0 ps n] collect_v2_complete [of py d _ "[]" 0]
    by (auto simp: price_reads_def)
next
  case False
  then show ?thesis
    using collect_v3_sound [of py d "[]" 0 ps n] collect_v3_complete [of py d _ "[]" 0]
    by (auto simp: price_reads_def)
qed

lemma service_of_collected:
  assumes "sort_ok py"
  shows "(if map fst pcs \<noteq> [] then
            (let prices = list_sort py (map fst pcs)
             in if prices = [] then Inl IndexError
                else Inr (Some \<lparr>service = srv_code,
                                cost = (if length prices > 1 then Prices prices
                                        else Scalar (hd prices)),
                                min_price = hd prices, max_price = last prices,
                                count = sum_list (map snd pcs)\<rparr>))
          else Inr None) = (Inr (derived_price py srv_code pcs) :: exn + ServicePrice option)"
proof (cases pcs)
  case Nil
  then show ?thesis by (simp add: derived_price_def)
next
  case (Cons a as)
  then have ne: "list_sort py (map fst pcs) \<noteq> []"
    using sort_ok_Nil [OF assms, of "map fst pcs"] by simp
  have len: "length (list_sort py (map fst pcs)) = length pcs"
    using sort_ok_length [OF assms, of "map fst pcs"] by simp
  show ?thesis
  proof (cases as)
    case Nil
    with Cons have "list_sort py (map fst pcs) = [fst a]"
      using sort_ok_single [OF assms, of "fst a"] by simp
    with Cons Nil show ?thesis by (simp add: derived_price_def)
  next
    case (Cons b bs)
    with \<open>pcs = a # as\<close> have "length pcs > 1" "length pcs \<noteq> 1" "pcs \<noteq> []"
      by simp_all
    with ne len show ?thesis by (simp add: derived_price_def Let_def)
  qed
qed

lemma complex_service_iff:
  assumes "sort_ok py"
  shows "complex_service py version srv_code srv_data = Inr r
           \<longleftrightarrow> service_derived py version srv_code srv_data r"
proof (cases srv_data)
  case (JObject d)
  let ?c = "if version = ''v2'' then collect_v2 py d [] 0 else collect_v3 py (map snd d) [] 0"
  show ?thesis
  proof
    assume a: "complex_service py version srv_code srv_data = Inr r"
    with JObject obtain ps n where c: "?c = Inr (ps, n)"
      by (cases ?c) (auto simp: complex_service_def)
    then obtain pcs where p: "price_reads py version d pcs" "ps = map fst pcs"
      "n = sum_list (map snd pcs)"
      using collect_iff [of version py d ps n] by blast
    from a JObject c p have "r = derived_price py srv_code pcs"
      using service_of_collected [OF assms, of pcs srv_code]
      by (simp add: complex_service_def)
    with p JObject show "service_derived py version srv_code srv_data r"
      by (auto simp: service_derived_def)
  next
    assume "service_derived py version srv_code srv_data r"
    with JObject obtain pcs where p: "price_reads py version d pcs"
      and r: "r = derived_price py srv_code pcs"
      by (auto simp: service_derived_def)
    from p have c: "?c = Inr (map fst pcs, sum_list (map snd pcs))"
      using collect_iff [of version py d "map fst pcs" "sum_list (map snd pcs)"] by blast
    with JObject r show "complex_service py version srv_code srv_data = Inr r"
      using service_of_collected [OF assms, of pcs srv_code]
      by (simp add: complex_service_def)
  qed
qed (auto simp: complex_service_def service_derived_def)

lemma kept_services_Cons:
  "kept_services (kv # srvs) (r # rs) =
     (case r of None \<Rightarrow> kept_services srvs rs
      | Some sp \<Rightarrow> (fst kv, sp) # kept_services srvs rs)"
  by (simp add: kept_services_def map_filter_simps split: option.splits)

lemma kept_services_Nil: "kept_services [] rs = []"
  by (simp add: kept_services_def map_filter_simps)

lemma complex_services_iff:
  "complex_services py version srvs acc = Inr smap
     \<longleftrightarrow> (\<exists>rs. list_all2 (\<lambda>(srv_code, srv_data) r.
                   complex_service py version srv_code srv_data = Inr r) srvs rs
              \<and> smap = dict_merge acc (kept_services srvs rs))"
proof (induction srvs arbitrary: acc)
  case Nil
  then show ?case by (auto simp: dict_merge_def kept_services_Nil)
next
  case (Cons kv srvs)
  obtain k v where kv: "kv = (k, v)" by (cases kv)
  show ?case
  proof (cases "complex_service py version k v")
    case (Inl e)
    with kv show ?thesis by (auto simp: list_all2_Cons1)
  next
    case (Inr r0)
    let ?acc = "case r0 of None \<Rightarrow> acc | Some sp \<Rightarrow> AList.update k sp acc"
    have step: "complex_services py version (kv # srvs) acc = complex_services py version srvs ?acc"
      using Inr kv by (simp split: option.splits)
    have merge: "dict_merge acc (kept_services (kv # srvs) (r0 # rs)) =
                   dict_merge ?acc (kept_services srvs rs)" for rs
      using kv by (simp add: kept_services_Cons dict_merge_def split: option.splits)
    show ?thesis
    proof
      assume "complex_services py version (kv # srvs) acc = Inr smap"
      with step Cons.IH [of ?acc] obtain rs where
        a: "list_all2 (\<lambda>(srv_code, srv_data) r.
              complex_service py version srv_code srv_data = Inr r) srvs rs"
        and b: "smap = dict_merge ?acc (kept_services srvs rs)"
        by auto
      have "list_all2 (\<lambda>(srv_code, srv_data) r.
              complex_service py version srv_code srv_data = Inr r) (kv # srvs) (r0 # rs)"
        using a Inr kv by simp
      moreover have "smap = dict_merge acc (kept_services (kv # srvs) (r0 # rs))"
        using b merge by simp
      ultimately show "\<exists>rs. list_all2 (\<lambda>(srv_code, srv_data) r.
                   complex_service py version srv_code srv_data = Inr r) (kv # srvs) rs
              \<and> smap = dict_merge acc (kept_services (kv # srvs) rs)"
        by blast
    next
      assume "\<exists>rs. list_all2 (\<lambda>(srv_code, srv_data) r.
                   complex_service py version srv_code srv_data = Inr r) (kv # srvs) rs
              \<and> smap = dict_merge acc (kept_services (kv # srvs) rs)"
      then obtain r rs where
        h: "complex_service py version k v = Inr r"
        and a: "list_all2 (\<lambda>(srv_code, srv_data) r.
              complex_service py version srv_code srv_data = Inr r) srvs rs"
        and b: "smap = dict_merge acc (kept_services (kv # srvs) (r # rs))"
        using kv by (auto simp: list_all2_Cons1)
      from h Inr have "r = r0" by simp
      with b merge have "smap = dict_merge ?acc (kept_services srvs rs)" by simp
      with a Cons.IH [of ?acc] step
      show "complex_services py version (kv # srvs) acc = Inr smap" by auto
    qed
  qed
qed

text \<open>One step of the loop over the countries, with the services as the inner loop leaves them.\<close>

lemma complex_countries_iff:
  "complex_countries py version countries acc = Inr result
     \<longleftrightarrow> (\<exists>cs. list_all2 (\<lambda>(cid, srv_obj) r.
                   \<exists>srvs smap. srv_obj = JObject srvs
                     \<and> complex_services py version srvs [] = Inr smap
                     \<and> (if smap = [] then r = None
                         else \<exists>c. int_str py cid = Some c
                                \<and> r = Some \<lparr>country_id = c, services = smap\<rparr>)) countries cs
              \<and> result = acc @ List.map_filter (\<lambda>r. r) cs)"
proof -
  define R where "R = (\<lambda>(cid, srv_obj) r.
                   \<exists>srvs smap. srv_obj = JObject srvs
                     \<and> complex_services py version srvs [] = Inr smap
                     \<and> (if smap = [] then r = None
                         else \<exists>c. int_str py cid = Some c
                                \<and> r = Some \<lparr>country_id = c, services = smap\<rparr>))"
  have R: "R (cid, srv_obj) r \<longleftrightarrow>
             (\<exists>srvs smap. srv_obj = JObject srvs
                \<and> complex_services py version srvs [] = Inr smap
                \<and> (if smap = [] then r = None
                    else \<exists>c. int_str py cid = Some c
                           \<and> r = Some \<lparr>country_id = c, services = smap\<rparr>))" for cid srv_obj r
    by (simp add: R_def)
  have main: "complex_countries py version countries acc = Inr result
     \<longleftrightarrow> (\<exists>cs. list_all2 R countries cs \<and> result = acc @ List.map_filter (\<lambda>r. r) cs)" for acc
  proof (induction countries arbitrary: acc)
    case Nil
    then show ?case by (auto simp: map_filter_simps)
  next
    case (Cons kv countries)
    obtain cid srv_obj where kv: "kv = (cid, srv_obj)" by (cases kv)
    show ?case
    proof (cases "\<exists>r0. R kv r0")
      case False
      then have nostep: "\<not> R (cid, srv_obj) r" for r using kv by blast
      have "complex_countries py version (kv # countries) acc \<noteq> Inr result"
      proof (cases srv_obj)
        case (JObject srvs)
        show ?thesis
        proof (cases "complex_services py version srvs []")
          case (Inl e)
          with JObject kv show ?thesis by simp
        next
          case (Inr smap)
          show ?thesis
          proof (cases "smap = []")
            case True
            with Inr JObject have "R (cid, srv_obj) None" unfolding R by simp
            with nostep show ?thesis by blast
          next
            case ne: False
            show ?thesis
            proof (cases "int_str py cid")
              case None
              with ne Inr JObject kv show ?thesis by simp
            next
              case (Some c)
              with ne Inr JObject have "R (cid, srv_obj) (Some \<lparr>country_id = c, services = smap\<rparr>)"
                unfolding R by simp
              with nostep show ?thesis by blast
            qed
          qed
        qed
      qed (use kv in auto)
      moreover have "\<not> (\<exists>cs. list_all2 R (kv # countries) cs
                          \<and> result = acc @ List.map_filter (\<lambda>r. r) cs)"
        using False by (auto simp: list_all2_Cons1)
      ultimately show ?thesis by blast
    next
      case True
      then obtain r0 where r0: "R kv r0" by blast
      then obtain srvs smap where o: "srv_obj = JObject srvs"
        and sm: "complex_services py version srvs [] = Inr smap"
        and rr: "if smap = [] then r0 = None
                 else \<exists>c. int_str py cid = Some c \<and> r0 = Some \<lparr>country_id = c, services = smap\<rparr>"
        using kv R by blast
      have uniq: "r = r0" if "R kv r" for r
      proof -
        from that kv obtain srvs' smap' where "srv_obj = JObject srvs'"
          "complex_services py version srvs' [] = Inr smap'"
          "if smap' = [] then r = None
           else \<exists>c. int_str py cid = Some c \<and> r = Some \<lparr>country_id = c, services = smap'\<rparr>"
          using R by blast
        with o sm rr show ?thesis by (auto split: if_splits)
      qed
      let ?acc = "case r0 of None \<Rightarrow> acc | Some cp \<Rightarrow> acc @ [cp]"
      have step: "complex_countries py version (kv # countries) acc =
                    complex_countries py version countries ?acc"
        using kv o sm rr by (auto split: if_splits)
      have app: "acc @ List.map_filter (\<lambda>r. r) (r0 # cs) = ?acc @ List.map_filter (\<lambda>r. r) cs" for cs
        by (simp add: map_filter_simps split: option.splits)
      show ?thesis
      proof
        assume "complex_countries py version (kv # countries) acc = Inr result"
        with step have "complex_countries py version countries ?acc = Inr result" by simp
        with Cons.IH [of ?acc] obtain cs where
          a: "list_all2 R countries cs" and b: "result = ?acc @ List.map_filter (\<lambda>r. r) cs"
          by blast
        from a r0 have "list_all2 R (kv # countries) (r0 # cs)" by simp
        moreover from b app have "result = acc @ List.map_filter (\<lambda>r. r) (r0 # cs)" by simp
        ultimately show "\<exists>cs. list_all2 R (kv # countries) cs
                           \<and> result = acc @ List.map_filter (\<lambda>r. r) cs"
          by blast
      next
        assume "\<exists>cs. list_all2 R (kv # countries) cs \<and> result = acc @ List.map_filter (\<lambda>r. r) cs"
        then obtain r cs where h: "R kv r" and a: "list_all2 R countries cs"
          and b: "result = acc @ List.map_filter (\<lambda>r. r) (r # cs)"
          by (auto simp: list_all2_Cons1)
        from uniq [OF h] b app have "result = ?acc @ List.map_filter (\<lambda>r. r) cs" by simp
        with a Cons.IH [of ?acc] have "complex_countries py version countries ?acc = Inr result"
          by blast
        with step show "complex_countries py version (kv # countries) acc = Inr result" by simp
      qed
    qed
  qed
  show ?thesis using main [of acc] unfolding R_def .
qed

lemma country_step_iff:
  assumes "sort_ok py"
  shows "(\<exists>srvs smap. srv_obj = JObject srvs
            \<and> complex_services py version srvs [] = Inr smap
            \<and> (if smap = [] then r = None
                else \<exists>c. int_str py cid = Some c
                       \<and> r = Some \<lparr>country_id = c, services = smap\<rparr>))
         \<longleftrightarrow> country_derived py version cid srv_obj r"
proof -
  have rel: "list_all2 (\<lambda>(srv_code, srv_data) r.
               complex_service py version srv_code srv_data = Inr r) srvs rs
             \<longleftrightarrow> list_all2 (\<lambda>(srv_code, srv_data) r.
               service_derived py version srv_code srv_data r) srvs rs" for srvs rs
    by (simp add: complex_service_iff [OF assms])
  show ?thesis
    unfolding country_derived_def complex_services_iff rel by blast
qed

text \<open>
  Claim C6, as the code has it. With a \<open>list.sort()\<close> that rearranges every list and
  sorts the lists free of NaN, the parser succeeds on a payload with a result exactly
  when the result is derived from the payload as follows. The payload is an object
  keyed by country id, each country an object keyed by service code, each service an
  object that gives one price and one count for each of its keys: under v2 the key
  read with \<open>float()\<close> and its value read with \<open>int()\<close>, under v3 the \<open>price\<close> and
  the \<open>count\<close> of each provider. No price is removed in either version: two keys that
  denote the same number give that price twice. A service with no price is dropped,
  and a country left with no service is dropped. For the others the count is the sum
  of the counts, the cost is the one price when exactly one was derived and otherwise
  the list of all the prices as \<open>list.sort()\<close> leaves it, which is ascending when no
  price is NaN, and minimum and maximum are the first and the last of the sorted list.
\<close>

theorem parse_complex_prices_derivation:
  assumes "sort_ok py"
  shows "(parse_complex_prices py data version = Inr result
            \<longleftrightarrow> prices_derived py version data result)
    \<and> (\<forall>srv_code pcs sp. derived_price py srv_code pcs = Some sp \<longrightarrow>
          count sp = sum_list (map snd pcs)
        \<and> (case cost sp of
             Scalar c \<Rightarrow> map fst pcs = [c]
           | Prices ps \<Rightarrow> length pcs > 1 \<and> mset ps = mset (map fst pcs)
                          \<and> (NaN \<notin> set (map fst pcs) \<longrightarrow> sorted_wrt float_le ps))
        \<and> min_price sp = hd (list_sort py (map fst pcs))
        \<and> max_price sp = last (list_sort py (map fst pcs)))"
proof
  have rel: "(\<lambda>(cid, srv_obj) r.
                 \<exists>srvs smap. srv_obj = JObject srvs
                   \<and> complex_services py version srvs [] = Inr smap
                   \<and> (if smap = [] then r = None
                       else \<exists>c. int_str py cid = Some c
                              \<and> r = Some \<lparr>country_id = c, services = smap\<rparr>))
             = (\<lambda>(cid, srv_obj) r. country_derived py version cid srv_obj r)"
  proof (intro ext)
    fix x :: "string \<times> json" and r
    obtain cid srv_obj where x: "x = (cid, srv_obj)" by (cases x)
    show "(case x of (cid, srv_obj) \<Rightarrow> \<lambda>r.
                 \<exists>srvs smap. srv_obj = JObject srvs
                   \<and> complex_services py version srvs [] = Inr smap
                   \<and> (if smap = [] then r = None
                       else \<exists>c. int_str py cid = Some c
                              \<and> r = Some \<lparr>country_id = c, services = smap\<rparr>)) r
          = (case x of (cid, srv_obj) \<Rightarrow> \<lambda>r. country_derived py version cid srv_obj r) r"
      unfolding x prod.case by (rule country_step_iff [OF assms])
  qed
  show "parse_complex_prices py data version = Inr result
          \<longleftrightarrow> prices_derived py version data result"
  proof (cases data)
    case (JObject countries)
    have 1: "parse_complex_prices py data version = complex_countries py version countries []"
      using JObject by (simp add: parse_complex_prices_def)
    have 2: "complex_countries py version countries [] = Inr result
       \<longleftrightarrow> (\<exists>cs. list_all2 (\<lambda>(cid, srv_obj) r. country_derived py version cid srv_obj r)
                   countries cs
                \<and> result = [] @ List.map_filter (\<lambda>r. r) cs)"
      unfolding complex_countries_iff rel ..
    have 3: "prices_derived py version data result
       \<longleftrightarrow> (\<exists>cs. list_all2 (\<lambda>(cid, srv_obj) r. country_derived py version cid srv_obj r)
                   countries cs
                \<and> result = List.map_filter (\<lambda>r. r) cs)"
      using JObject by (simp add: prices_derived_def)
    show ?thesis unfolding 1 2 3 by (simp only: append_Nil)
  qed (simp_all add: parse_complex_prices_def prices_derived_def)
next
  show "\<forall>srv_code pcs sp. derived_price py srv_code pcs = Some sp \<longrightarrow>
          count sp = sum_list (map snd pcs)
        \<and> (case cost sp of
             Scalar c \<Rightarrow> map fst pcs = [c]
           | Prices ps \<Rightarrow> length pcs > 1 \<and> mset ps = mset (map fst pcs)
                          \<and> (NaN \<notin> set (map fst pcs) \<longrightarrow> sorted_wrt float_le ps))
        \<and> min_price sp = hd (list_sort py (map fst pcs))
        \<and> max_price sp = last (list_sort py (map fst pcs))"
  proof (intro allI impI)
    fix srv_code pcs sp
    assume d: "derived_price py srv_code pcs = Some sp"
    then have ne: "pcs \<noteq> []" by (auto simp: derived_price_def split: if_splits)
    show "count sp = sum_list (map snd pcs)
        \<and> (case cost sp of
             Scalar c \<Rightarrow> map fst pcs = [c]
           | Prices ps \<Rightarrow> length pcs > 1 \<and> mset ps = mset (map fst pcs)
                          \<and> (NaN \<notin> set (map fst pcs) \<longrightarrow> sorted_wrt float_le ps))
        \<and> min_price sp = hd (list_sort py (map fst pcs))
        \<and> max_price sp = last (list_sort py (map fst pcs))"
    proof (cases "length pcs = 1")
      case True
      then obtain pc where "pcs = [pc]" by (cases pcs) auto
      with d show ?thesis by (auto simp: derived_price_def)
    next
      case False
      with ne have len: "length pcs > 1" by (cases pcs) auto
      from d ne False have sp: "sp = \<lparr>service = srv_code,
                 cost = Prices (list_sort py (map fst pcs)),
                 min_price = hd (list_sort py (map fst pcs)),
                 max_price = last (list_sort py (map fst pcs)),
                 count = sum_list (map snd pcs)\<rparr>"
        by (simp add: derived_price_def)
      have "mset (list_sort py (map fst pcs)) = mset (map fst pcs)"
        "NaN \<notin> set (map fst pcs) \<longrightarrow> sorted_wrt float_le (list_sort py (map fst pcs))"
        using assms by (simp_all add: sort_ok_def)
      with len show ?thesis unfolding sp by simp
    qed
  qed
qed

theorem parse_complex_prices_derivation_witness:
  "parse_complex_prices test_builtins json_v2_two ''v2'' =
     Inr [\<lparr>country_id = 0,
           services = [(''tg'', \<lparr>service = ''tg'', cost = Scalar (Finite 10.5),
                                 min_price = Finite 10.5, max_price = Finite 10.5, count = 100\<rparr>)]\<rparr>,
          \<lparr>country_id = 6,
           services = [(''vk'', \<lparr>service = ''vk'', cost = Prices [Finite 1, Finite 2],
                                 min_price = Finite 1, max_price = Finite 2, count = 5\<rparr>)]\<rparr>]
   \<and> prices_derived test_builtins ''v2'' json_v2_two
     [\<lparr>country_id = 0,
           services = [(''tg'', \<lparr>service = ''tg'', cost = Scalar (Finite 10.5),
                                 min_price = Finite 10.5, max_price = Finite 10.5, count = 100\<rparr>)]\<rparr>,
          \<lparr>country_id = 6,
           services = [(''vk'', \<lparr>service = ''vk'', cost = Prices [Finite 1, Finite 2],
                                 min_price = Finite 1, max_price = Finite 2, count = 5\<rparr>)]\<rparr>]"
proof -
  have c: "int_str test_builtins ''0'' = Some 0" "int_str test_builtins ''6'' = Some 6"
    by (simp_all add: fixture_defs)
  have f: "float_str test_builtins ''10.5'' = Some (Finite (21 / 2))"
    "float_str test_builtins ''2.0'' = Some (Finite 2)"
    "float_str test_builtins ''1.0'' = Some (Finite 1)"
    by (simp_all add: fixture_defs)
  have st: "list_sort test_builtins [Finite (21 / 2)] = [Finite (21 / 2)]"
    "list_sort test_builtins [Finite 2, Finite 1] = [Finite 1, Finite 2]"
    by (simp_all add: fixture_defs)
  have run: "parse_complex_prices test_builtins json_v2_two ''v2'' =
     Inr [\<lparr>country_id = 0,
           services = [(''tg'', \<lparr>service = ''tg'', cost = Scalar (Finite 10.5),
                                 min_price = Finite 10.5, max_price = Finite 10.5, count = 100\<rparr>)]\<rparr>,
          \<lparr>country_id = 6,
           services = [(''vk'', \<lparr>service = ''vk'', cost = Prices [Finite 1, Finite 2],
                                 min_price = Finite 1, max_price = Finite 2, count = 5\<rparr>)]\<rparr>]"
    by (simp add: parse_complex_prices_def json_v2_two_def complex_service_def c f st Let_def)
  with parse_complex_prices_derivation [OF insertion_sort_ok] show ?thesis by blast
qed

text \<open>
  The claim has the v2 list hold the distinct prices, sorted ascending. The keys
  \<open>10.5\<close> and \<open>10.50\<close> are different strings of one JSON object and denote the same
  number, and the cost list holds it twice. With the keys \<open>2.0\<close>, \<open>nan\<close> and \<open>1.0\<close>
  the cost list is \<open>[2.0, nan, 1.0]\<close>, which is not ascending.
\<close>

theorem v2_prices_as_read_counterexample:
  "distinct [''10.5'', ''10.50'']
   \<and> parse_complex_prices test_builtins
     (JObject [(''0'', JObject [(''tg'', JObject [(''10.5'', JInt 100), (''10.50'', JInt 50)])])]) ''v2'' =
     Inr [\<lparr>country_id = 0,
           services = [(''tg'', \<lparr>service = ''tg'', cost = Prices [Finite 10.5, Finite 10.5],
                                 min_price = Finite 10.5, max_price = Finite 10.5, count = 150\<rparr>)]\<rparr>]
   \<and> \<not> distinct [Finite 10.5, Finite 10.5]
   \<and> parse_complex_prices test_builtins json_v2_nan ''v2'' =
     Inr [\<lparr>country_id = 0,
           services = [(''tg'', \<lparr>service = ''tg'', cost = Prices [Finite 2, NaN, Finite 1],
                                 min_price = Finite 2, max_price = Finite 1, count = 3\<rparr>)]\<rparr>]
   \<and> \<not> sorted_wrt float_le [Finite 2, NaN, Finite 1]"
proof -
  have c: "int_str test_builtins ''0'' = Some 0"
    by (simp add: fixture_defs)
  have f: "float_str test_builtins ''10.5'' = Some (Finite (21 / 2))"
    "float_str test_builtins ''10.50'' = Some (Finite (21 / 2))"
    "float_str test_builtins ''2.0'' = Some (Finite 2)"
    "float_str test_builtins ''nan'' = Some NaN"
    "float_str test_builtins ''1.0'' = Some (Finite 1)"
    by (simp_all add: fixture_defs)
  have st: "list_sort test_builtins [Finite (21 / 2), Finite (21 / 2)] =
              [Finite (21 / 2), Finite (21 / 2)]"
    "list_sort test_builtins [Finite 2, NaN, Finite 1] = [Finite 2, NaN, Finite 1]"
    by (simp_all add: fixture_defs)
  have a: "parse_complex_prices test_builtins
     (JObject [(''0'', JObject [(''tg'', JObject [(''10.5'', JInt 100), (''10.50'', JInt 50)])])]) ''v2'' =
     Inr [\<lparr>country_id = 0,
           services = [(''tg'', \<lparr>service = ''tg'', cost = Prices [Finite 10.5, Finite 10.5],
                                 min_price = Finite 10.5, max_price = Finite 10.5, count = 150\<rparr>)]\<rparr>]"
    by (simp add: parse_complex_prices_def complex_service_def c f st Let_def)
  have b: "parse_complex_prices test_builtins json_v2_nan ''v2'' =
     Inr [\<lparr>country_id = 0,
           services = [(''tg'', \<lparr>service = ''tg'', cost = Prices [Finite 2, NaN, Finite 1],
                                 min_price = Finite 2, max_price = Finite 1, count = 3\<rparr>)]\<rparr>]"
    by (simp add: parse_complex_prices_def json_v2_nan_def complex_service_def c f st Let_def)
  have n: "\<not> sorted_wrt float_le [Finite 2, NaN, Finite 1]"
    by (simp add: float_le_def float_eq_def)
  from a b n show ?thesis by simp
qed

end
